theory Spec2Isabelle
  imports Complex_Main
begin

section \<open>Strings as Python uses them\<close>

text \<open>
  Python's \<open>str.lower()\<close> on ASCII text, and the substring test \<open>sub in s\<close>.
\<close>

definition char_lower :: "char \<Rightarrow> char" where
  "char_lower c =
     (case map_of (zip ''ABCDEFGHIJKLMNOPQRSTUVWXYZ'' ''abcdefghijklmnopqrstuvwxyz'') c of
        Some d \<Rightarrow> d
      | None \<Rightarrow> c)"

definition lower :: "string \<Rightarrow> string" where
  "lower s = map char_lower s"

fun starts_with :: "string \<Rightarrow> string \<Rightarrow> bool" where
  "starts_with s [] = True"
| "starts_with [] (p # ps) = False"
| "starts_with (c # cs) (p # ps) = (c = p \<and> starts_with cs ps)"

text \<open>\<open>contains s sub\<close> is Python's \<open>sub in s\<close>.\<close>

fun contains :: "string \<Rightarrow> string \<Rightarrow> bool" where
  "contains [] sub = (sub = [])"
| "contains (c # cs) sub = (starts_with (c # cs) sub \<or> contains cs sub)"

text \<open>\<open>sep.join(xs)\<close>.\<close>

fun join :: "string \<Rightarrow> string list \<Rightarrow> string" where
  "join sep [] = []"
| "join sep [x] = x"
| "join sep (x # y # ys) = x @ sep @ join sep (y # ys)"

section \<open>Outcomes of a call\<close>

text \<open>
  A Python call returns a value, raises an exception (carried here as its message), or
  never comes back because it waits for a \<open>threading.Lock\<close> that nobody releases.
\<close>

datatype 'a result = Returns 'a | Raises string | Blocks

section \<open>CircuitBreaker (app101.py)\<close>

text \<open>
  Clock readings (\<open>time.time()\<close>) are seconds, as integers. \<open>last_failure_time\<close> is
  \<open>None\<close> until the first failure.
\<close>

record circuit_breaker =
  failure_threshold :: int
  recovery_timeout :: int
  failure_count :: int
  last_failure_time :: "int option"
  is_open :: bool

definition CircuitBreaker :: "int \<Rightarrow> int \<Rightarrow> circuit_breaker" where
  "CircuitBreaker ft rt =
     \<lparr>failure_threshold = ft, recovery_timeout = rt, failure_count = 0,
      last_failure_time = None, is_open = False\<rparr>"

text \<open>
  What \<open>call\<close> did: \<open>Rejected\<close> is the exception "Circuit breaker is open", raised
  before the protected function is touched; \<open>Crashed\<close> is the \<open>TypeError\<close> of
  \<open>time.time() - None\<close>; \<open>Returned\<close> and \<open>Failed\<close> pass on what the function did.
\<close>

datatype ('e, 'a) call_outcome = Rejected | Crashed | Returned 'a | Failed 'e

text \<open>
  The protected function works on some world \<open>'w\<close> (the network, a counter of requests):
  it is given the world and answers with its exception (\<open>Inl\<close>) or value (\<open>Inr\<close>) and
  the world it leaves. \<open>now\<close> is the clock at the gate, \<open>later\<close> the clock in the
  \<open>except\<close> branch.
\<close>

definition attempt ::
  "circuit_breaker \<Rightarrow> ('w \<Rightarrow> ('e + 'a) \<times> 'w) \<Rightarrow> 'w \<Rightarrow> int
     \<Rightarrow> circuit_breaker \<times> ('e, 'a) call_outcome \<times> 'w" where
  "attempt cb func w later =
     (case func w of
        (Inr v, w') \<Rightarrow> (cb\<lparr>failure_count := 0\<rparr>, Returned v, w')
      | (Inl e, w') \<Rightarrow>
          (let cb1 = cb\<lparr>failure_count := failure_count cb + 1, last_failure_time := Some later\<rparr>
           in (if failure_count cb1 \<ge> failure_threshold cb1 then cb1\<lparr>is_open := True\<rparr> else cb1,
               Failed e, w')))"

definition call ::
  "circuit_breaker \<Rightarrow> int \<Rightarrow> ('w \<Rightarrow> ('e + 'a) \<times> 'w) \<Rightarrow> 'w \<Rightarrow> int
     \<Rightarrow> circuit_breaker \<times> ('e, 'a) call_outcome \<times> 'w" where
  "call cb now func w later =
     (if is_open cb then
        (case last_failure_time cb of
           None \<Rightarrow> (cb, Crashed, w)
         | Some t \<Rightarrow>
             if now - t > recovery_timeout cb
             then attempt (cb\<lparr>is_open := False, failure_count := 0\<rparr>) func w later
             else (cb, Rejected, w))
      else attempt cb func w later)"

section \<open>CircuitBreaker (infobridge.py)\<close>

datatype breaker_state = Closed | Opened | Half_Open

record circuit_breaker_ib =
  failure_threshold_ib :: int
  recovery_timeout_ib :: int
  success_threshold_ib :: int
  failure_count_ib :: int
  success_count_ib :: int
  last_failure_time_ib :: "int option"
  state_ib :: breaker_state

definition CircuitBreaker_ib :: "int \<Rightarrow> int \<Rightarrow> int \<Rightarrow> circuit_breaker_ib" where
  "CircuitBreaker_ib ft rt st =
     \<lparr>failure_threshold_ib = ft, recovery_timeout_ib = rt, success_threshold_ib = st,
      failure_count_ib = 0, success_count_ib = 0, last_failure_time_ib = None,
      state_ib = Closed\<rparr>"

definition on_success_ib :: "circuit_breaker_ib \<Rightarrow> circuit_breaker_ib" where
  "on_success_ib cb =
     (if state_ib cb = Half_Open then
        (let cb1 = cb\<lparr>success_count_ib := success_count_ib cb + 1\<rparr>
         in if success_count_ib cb1 \<ge> success_threshold_ib cb1
            then cb1\<lparr>state_ib := Closed, failure_count_ib := 0\<rparr>
            else cb1)
      else cb)"

definition on_failure_ib :: "circuit_breaker_ib \<Rightarrow> int \<Rightarrow> circuit_breaker_ib" where
  "on_failure_ib cb later =
     (let cb1 = cb\<lparr>failure_count_ib := failure_count_ib cb + 1,
                    last_failure_time_ib := Some later\<rparr>
      in if failure_count_ib cb1 \<ge> failure_threshold_ib cb1
         then cb1\<lparr>state_ib := Opened\<rparr>
         else cb1)"

definition attempt_ib ::
  "circuit_breaker_ib \<Rightarrow> ('w \<Rightarrow> ('e + 'a) \<times> 'w) \<Rightarrow> 'w \<Rightarrow> int
     \<Rightarrow> circuit_breaker_ib \<times> ('e, 'a) call_outcome \<times> 'w" where
  "attempt_ib cb func w later =
     (case func w of
        (Inr v, w') \<Rightarrow> (on_success_ib cb, Returned v, w')
      | (Inl e, w') \<Rightarrow> (on_failure_ib cb later, Failed e, w'))"

definition call_ib ::
  "circuit_breaker_ib \<Rightarrow> int \<Rightarrow> ('w \<Rightarrow> ('e + 'a) \<times> 'w) \<Rightarrow> 'w \<Rightarrow> int
     \<Rightarrow> circuit_breaker_ib \<times> ('e, 'a) call_outcome \<times> 'w" where
  "call_ib cb now func w later =
     (if state_ib cb = Opened then
        (case last_failure_time_ib cb of
           None \<Rightarrow> (cb, Crashed, w)
         | Some t \<Rightarrow>
             if now - t > recovery_timeout_ib cb
             then attempt_ib (cb\<lparr>state_ib := Half_Open, success_count_ib := 0\<rparr>) func w later
             else (cb, Rejected, w))
      else attempt_ib cb func w later)"

text \<open>
  A sequence of calls through one breaker: each entry is the clock at the gate, the
  protected function, and the clock when it has finished.
\<close>

fun calls_ib ::
  "circuit_breaker_ib \<Rightarrow> (int \<times> ('w \<Rightarrow> ('e + 'a) \<times> 'w) \<times> int) list \<Rightarrow> 'w
     \<Rightarrow> circuit_breaker_ib \<times> 'w" where
  "calls_ib cb [] w = (cb, w)"
| "calls_ib cb ((now, func, later) # rest) w =
     (case call_ib cb now func w later of (cb', _, w') \<Rightarrow> calls_ib cb' rest w')"

fun calls ::
  "circuit_breaker \<Rightarrow> (int \<times> ('w \<Rightarrow> ('e + 'a) \<times> 'w) \<times> int) list \<Rightarrow> 'w
     \<Rightarrow> circuit_breaker \<times> 'w" where
  "calls cb [] w = (cb, w)"
| "calls cb ((now, func, later) # rest) w =
     (case call cb now func w later of (cb', _, w') \<Rightarrow> calls cb' rest w')"

text \<open>Two protected functions over a world that counts how often it was asked.\<close>

definition failing :: "nat \<Rightarrow> (string + unit) \<times> nat" where
  "failing w = (Inl ''timeout'', Suc w)"

definition succeeding :: "nat \<Rightarrow> (string + unit) \<times> nat" where
  "succeeding w = (Inr (), Suc w)"

section \<open>The calendar collaborator\<close>

text \<open>
  Instants are minutes on the local time line. An event is what the Google Calendar API
  hands back: its id, its summary, and \<open>start.dateTime\<close> / \<open>end.dateTime\<close> (absent for
  an all-day event). Event ids are numbers here; every id is a non-empty value for
  Python's truth test.
\<close>

record gcal_event =
  ev_id :: nat
  ev_summary :: string
  ev_start :: "int option"
  ev_end :: "int option"

text \<open>
  The service object: the events it stores, whether its requests currently raise (with
  which message), and the id its next insert hands out.
\<close>

record calendar_backend =
  cal_events :: "gcal_event list"
  cal_down :: "string option"
  cal_next_id :: nat

text \<open>
  \<open>events().list(timeMin, timeMax, singleEvents=True, maxResults=50)\<close>: the events that
  end after \<open>timeMin\<close> and start before \<open>timeMax\<close> (all-day events are handed back as
  they are), at most fifty of them.
\<close>

definition in_window :: "int \<Rightarrow> int \<Rightarrow> gcal_event \<Rightarrow> bool" where
  "in_window time_min time_max e =
     (case (ev_start e, ev_end e) of
        (Some s, Some t) \<Rightarrow> time_min < t \<and> s < time_max
      | _ \<Rightarrow> True)"

definition events_list :: "calendar_backend \<Rightarrow> int \<Rightarrow> int \<Rightarrow> string + gcal_event list" where
  "events_list svc time_min time_max =
     (case cal_down svc of
        Some msg \<Rightarrow> Inl msg
      | None \<Rightarrow> Inr (take 50 (filter (in_window time_min time_max) (cal_events svc))))"

text \<open>\<open>events().insert(body)\<close>: stores the event under a fresh id and answers with it.\<close>

definition events_insert ::
  "calendar_backend \<Rightarrow> string \<Rightarrow> int \<Rightarrow> int \<Rightarrow> string + (nat \<times> calendar_backend)" where
  "events_insert svc summary start_dt end_dt =
     (case cal_down svc of
        Some msg \<Rightarrow> Inl msg
      | None \<Rightarrow>
          Inr (cal_next_id svc,
               svc\<lparr>cal_events := cal_events svc @
                      [\<lparr>ev_id = cal_next_id svc, ev_summary = summary,
                        ev_start = Some start_dt, ev_end = Some end_dt\<rparr>],
                    cal_next_id := Suc (cal_next_id svc)\<rparr>))"

section \<open>Clock strings\<close>

text \<open>\<open>strftime('%I:%M %p')\<close> of an instant.\<close>

definition two_digits :: "nat \<Rightarrow> string" where
  "two_digits n = [''0123456789'' ! (n div 10 mod 10), ''0123456789'' ! (n mod 10)]"

definition strftime_IMp :: "int \<Rightarrow> string" where
  "strftime_IMp t =
     (let m = nat (t mod 1440); h = m div 60;
          h12 = (if h mod 12 = 0 then 12 else h mod 12)
      in two_digits h12 @ '':'' @ two_digits (m mod 60) @ '' '' @
         (if h < 12 then ''AM'' else ''PM''))"

text \<open>
  The minute of the day a slot string such as \<open>2:00 PM\<close> names (\<open>%I:%M %p\<close>); \<open>None\<close>
  where \<open>strptime\<close> raises.
\<close>

definition digit_of :: "char \<Rightarrow> nat option" where
  "digit_of c = map_of (zip ''0123456789'' [0, 1, 2, 3, 4, 5, 6, 7, 8, 9]) c"

fun digits_value :: "nat \<Rightarrow> string \<Rightarrow> nat option" where
  "digits_value acc [] = Some acc"
| "digits_value acc (c # cs) =
     (case digit_of c of None \<Rightarrow> None | Some d \<Rightarrow> digits_value (10 * acc + d) cs)"

definition clock_minutes :: "string \<Rightarrow> nat option" where
  "clock_minutes s =
     (let hh = takeWhile (\<lambda>c. c \<noteq> CHR '':'') s;
          mm = take 2 (drop (Suc (length hh)) s);
          ampm = drop (length hh + 4) s
      in if hh = [] \<or> length hh > 2 \<or> length mm < 2 then None
         else (case (digits_value 0 hh, digits_value 0 mm) of
                 (Some h, Some m) \<Rightarrow>
                   if h < 1 \<or> h > 12 \<or> m > 59 then None
                   else if ampm = ''AM'' then Some (h mod 12 * 60 + m)
                   else if ampm = ''PM'' then Some (h mod 12 * 60 + 720 + m)
                   else None
               | _ \<Rightarrow> None))"

text \<open>
  \<open>_parse_appointment_datetime\<close> reads the date and time strings with \<open>strptime\<close> and
  the current year; the functions below take it as a parameter \<open>P\<close> that answers with the
  instant, or with the message of the \<open>ValueError\<close>. \<open>same_day_parse\<close> is one such
  function, for appointments of a single day: it reads the time of day only.
\<close>

definition same_day_parse :: "string \<Rightarrow> string \<Rightarrow> string + int" where
  "same_day_parse date_str time_str =
     (case clock_minutes time_str of
        None \<Rightarrow> Inl ''time data does not match format''
      | Some m \<Rightarrow> Inr (int m))"

section \<open>GoogleCalendarManager (app101.py)\<close>

record appointment =
  customer_name :: string
  phone_number :: string
  apt_service :: string
  apt_date :: string
  apt_time :: string
  apt_notes :: string
  apt_call_sid :: string
  google_event_id :: "nat option"
  created_at :: string
  apt_status :: string

text \<open>
  \<open>lock_held\<close> is the state of \<open>self._lock\<close>, a \<open>threading.Lock\<close>: acquiring it while
  it is held waits until it is released, whoever holds it.
\<close>

record calendar_manager =
  service :: "calendar_backend option"
  appointment_duration :: int
  lock_held :: bool

definition has_overlap :: "int \<Rightarrow> int \<Rightarrow> int \<Rightarrow> int \<Rightarrow> bool" where
  "has_overlap appointment_date appointment_end event_start_local event_end_local =
     ((appointment_date \<ge> event_start_local \<and> appointment_date < event_end_local) \<or>
      (appointment_end > event_start_local \<and> appointment_end \<le> event_end_local) \<or>
      (appointment_date \<le> event_start_local \<and> appointment_end \<ge> event_end_local) \<or>
      (event_start_local \<le> appointment_date \<and> event_end_local \<ge> appointment_end))"

text \<open>The loop over the listed events: the first overlapping one ends it.\<close>

fun scan_events ::
  "int \<Rightarrow> int \<Rightarrow> nat option \<Rightarrow> gcal_event list \<Rightarrow> bool \<times> string option" where
  "scan_events appointment_date appointment_end exclude_event_id [] = (True, None)"
| "scan_events appointment_date appointment_end exclude_event_id (event # events) =
     (if exclude_event_id = Some (ev_id event)
      then scan_events appointment_date appointment_end exclude_event_id events
      else (case (ev_start event, ev_end event) of
              (Some s, Some t) \<Rightarrow>
                if has_overlap appointment_date appointment_end s t
                then (False, Some (''already booked from '' @ strftime_IMp s @ '' to '' @
                                   strftime_IMp t))
                else scan_events appointment_date appointment_end exclude_event_id events
            | _ \<Rightarrow> scan_events appointment_date appointment_end exclude_event_id events))"

definition system_error :: "bool \<times> string option" where
  "system_error = (False, Some ''unable to verify availability due to system error'')"

text \<open>The body of \<open>check_availability\<close> inside \<open>with self._lock\<close>, with its \<open>except\<close>.\<close>

definition check_locked ::
  "(string \<Rightarrow> string \<Rightarrow> string + int) \<Rightarrow> int \<Rightarrow> calendar_backend \<Rightarrow> string \<Rightarrow> string
     \<Rightarrow> nat option \<Rightarrow> bool \<times> string option" where
  "check_locked P duration svc date_str time_str exclude_event_id =
     (case P date_str time_str of
        Inl msg \<Rightarrow> system_error
      | Inr appointment_date \<Rightarrow>
          (let appointment_end = appointment_date + duration;
               buffer_minutes = 15
           in case events_list svc (appointment_date - buffer_minutes)
                     (appointment_end + buffer_minutes) of
                Inl msg \<Rightarrow> system_error
              | Inr events \<Rightarrow>
                  scan_events appointment_date appointment_end exclude_event_id events))"

text \<open>
  \<open>check_availability\<close> takes the lock for its whole body and gives it back on every
  way out, so it leaves the manager as it found it; where the lock is held it waits.
\<close>

definition check_availability ::
  "(string \<Rightarrow> string \<Rightarrow> string + int) \<Rightarrow> calendar_manager \<Rightarrow> string \<Rightarrow> string
     \<Rightarrow> nat option \<Rightarrow> (bool \<times> string option) result" where
  "check_availability P mgr date_str time_str exclude_event_id =
     (case service mgr of
        None \<Rightarrow> Returns (True, None)
      | Some svc \<Rightarrow>
          if lock_held mgr then Blocks
          else Returns (check_locked P (appointment_duration mgr) svc date_str time_str
                          exclude_event_id))"

text \<open>Python's \<open>str\<close> of an optional string inside an f-string.\<close>

definition str_opt :: "string option \<Rightarrow> string" where
  "str_opt x = (case x of None \<Rightarrow> ''None'' | Some s \<Rightarrow> s)"

definition create_failed :: "string \<Rightarrow> bool \<times> nat option \<times> string option" where
  "create_failed msg = (False, None, Some (''Failed to create calendar event: '' @ msg))"

text \<open>
  \<open>create_appointment\<close>: the outer \<open>with self._lock\<close> takes the lock, and every call of
  \<open>check_availability\<close> below it runs against the manager that holds it. A \<open>return\<close> or
  an exception leaves the \<open>with\<close> and frees the lock; a call that waits keeps it.
\<close>

definition create_appointment ::
  "(string \<Rightarrow> string \<Rightarrow> string + int) \<Rightarrow> calendar_manager \<Rightarrow> appointment
     \<Rightarrow> calendar_manager \<times> (bool \<times> nat option \<times> string option) result" where
  "create_appointment P mgr a =
     (case service mgr of
        None \<Rightarrow> (mgr, Returns (False, None, Some ''Calendar service not available''))
      | Some svc \<Rightarrow>
          if lock_held mgr then (mgr, Blocks)
          else
            (let held = mgr\<lparr>lock_held := True\<rparr> in
             case check_availability P held (apt_date a) (apt_time a) None of
               Blocks \<Rightarrow> (held, Blocks)
             | Raises msg \<Rightarrow> (mgr, Returns (create_failed msg))
             | Returns (is_available, conflict_details) \<Rightarrow>
                 if \<not> is_available
                 then (mgr, Returns (False, None,
                         Some (''Cannot book '' @ apt_time a @ '' on '' @ apt_date a @
                               '' - slot is '' @ str_opt conflict_details)))
                 else
                   (case P (apt_date a) (apt_time a) of
                      Inl msg \<Rightarrow> (mgr, Returns (create_failed msg))
                    | Inr appointment_datetime \<Rightarrow>
                        (case events_insert svc
                                (''BOOKED: '' @ apt_service a @ '' - '' @ customer_name a)
                                appointment_datetime
                                (appointment_datetime + appointment_duration mgr) of
                           Inl msg \<Rightarrow> (mgr, Returns (create_failed msg))
                         | Inr (event_id, svc') \<Rightarrow>
                             (let held' = held\<lparr>service := Some svc'\<rparr> in
                              case check_availability P held' (apt_date a) (apt_time a)
                                     (Some event_id) of
                                Blocks \<Rightarrow> (held', Blocks)
                              | Raises msg \<Rightarrow>
                                  (held'\<lparr>lock_held := False\<rparr>, Returns (create_failed msg))
                              | Returns still \<Rightarrow>
                                  (held'\<lparr>lock_held := False\<rparr>,
                                   Returns (True, Some event_id, None)))))))"

section \<open>GoogleCalendarManager (infobridge.py)\<close>

text \<open>
  The cache maps the key \<open>f"{date_str}:{time_str}"\<close> to the cached answer and the clock
  reading (seconds) at which the background refresh stored it.
\<close>

record calendar_manager_ib =
  service_ib :: "calendar_backend option"
  availability_cache :: "string \<rightharpoonup> (bool \<times> int)"
  cache_ttl :: int

text \<open>
  \<open>_check_availability_internal\<close>: one hour from the parsed start is queried, and any
  event in it means "taken"; every exception means "available".
\<close>

definition check_availability_internal_ib ::
  "(string \<Rightarrow> string \<Rightarrow> string + int) \<Rightarrow> calendar_manager_ib \<Rightarrow> string \<Rightarrow> string \<Rightarrow> bool" where
  "check_availability_internal_ib P mgr date_str time_str =
     (case service_ib mgr of
        None \<Rightarrow> True
      | Some svc \<Rightarrow>
          (case P date_str time_str of
             Inl msg \<Rightarrow> True
           | Inr appointment_date \<Rightarrow>
               (case events_list svc appointment_date (appointment_date + 60) of
                  Inl msg \<Rightarrow> True
                | Inr events \<Rightarrow> length events = 0)))"

definition check_availability_ib ::
  "(string \<Rightarrow> string \<Rightarrow> string + int) \<Rightarrow> calendar_manager_ib \<Rightarrow> int \<Rightarrow> string \<Rightarrow> string
     \<Rightarrow> bool" where
  "check_availability_ib P mgr now date_str time_str =
     (case availability_cache mgr (date_str @ '':'' @ time_str) of
        Some (available, timestamp) \<Rightarrow>
          if now - timestamp < cache_ttl mgr then available
          else check_availability_internal_ib P mgr date_str time_str
      | None \<Rightarrow> check_availability_internal_ib P mgr date_str time_str)"

text \<open>
  \<open>create_appointment\<close> of infobridge.py parses the slot, builds the event and inserts
  it; \<open>None\<close> is its answer where there is no service or anything raised.
\<close>

definition create_appointment_ib ::
  "(string \<Rightarrow> string \<Rightarrow> string + int) \<Rightarrow> calendar_manager_ib \<Rightarrow> appointment
     \<Rightarrow> calendar_manager_ib \<times> nat option" where
  "create_appointment_ib P mgr a =
     (case service_ib mgr of
        None \<Rightarrow> (mgr, None)
      | Some svc \<Rightarrow>
          (case P (apt_date a) (apt_time a) of
             Inl msg \<Rightarrow> (mgr, None)
           | Inr appointment_datetime \<Rightarrow>
               (case events_insert svc (apt_service a @ '' - '' @ customer_name a)
                       appointment_datetime (appointment_datetime + 60) of
                  Inl msg \<Rightarrow> (mgr, None)
                | Inr (event_id, svc') \<Rightarrow> (mgr\<lparr>service_ib := Some svc'\<rparr>, Some event_id))))"

section \<open>Alternative slots (app101.py)\<close>

text \<open>
  \<open>find_next_available_slots\<close>: the fixed grid, walked outwards from the preferred time
  (the slot \<open>i\<close> places later, then the slot \<open>i\<close> places earlier), asking
  \<open>check_availability\<close> for each slot until \<open>count\<close> free ones are found.
\<close>

definition time_slots :: "string list" where
  "time_slots =
     [''8:00 AM'', ''8:30 AM'', ''9:00 AM'', ''9:30 AM'', ''10:00 AM'', ''10:30 AM'',
      ''11:00 AM'', ''11:30 AM'', ''12:00 PM'', ''12:30 PM'', ''1:00 PM'', ''1:30 PM'',
      ''2:00 PM'', ''2:30 PM'', ''3:00 PM'', ''3:30 PM'', ''4:00 PM'', ''4:30 PM'', ''5:00 PM'']"

fun index_of :: "'a \<Rightarrow> 'a list \<Rightarrow> nat" where
  "index_of x [] = 0"
| "index_of x (y # ys) = (if x = y then 0 else Suc (index_of x ys))"

definition reordered :: "nat \<Rightarrow> string list \<Rightarrow> string list" where
  "reordered idx slots =
     concat (map (\<lambda>i. (if idx + i < length slots then [slots ! (idx + i)] else []) @
                       (if i \<le> idx \<and> 0 < i then [slots ! (idx - i)] else []))
               [0..<length slots])"

fun collect_available ::
  "(string \<Rightarrow> string \<Rightarrow> string + int) \<Rightarrow> calendar_manager \<Rightarrow> string \<Rightarrow> int \<Rightarrow> string list
     \<Rightarrow> string list \<Rightarrow> string list result" where
  "collect_available P mgr date_str count available_slots [] = Returns available_slots"
| "collect_available P mgr date_str count available_slots (time_slot # rest) =
     (if int (length available_slots) \<ge> count then Returns available_slots
      else (case check_availability P mgr date_str time_slot None of
              Blocks \<Rightarrow> Blocks
            | Raises msg \<Rightarrow> Raises msg
            | Returns (is_available, details) \<Rightarrow>
                collect_available P mgr date_str count
                  (if is_available then available_slots @ [time_slot] else available_slots)
                  rest))"

definition find_next_available_slots ::
  "(string \<Rightarrow> string \<Rightarrow> string + int) \<Rightarrow> calendar_manager \<Rightarrow> string \<Rightarrow> string option \<Rightarrow> int
     \<Rightarrow> string list result" where
  "find_next_available_slots P mgr date_str preferred_time count =
     (case service mgr of
        None \<Rightarrow> Returns []
      | Some svc \<Rightarrow>
          collect_available P mgr date_str count []
            (case preferred_time of
               None \<Rightarrow> time_slots
             | Some p \<Rightarrow>
                 if p \<noteq> [] \<and> List.member time_slots p
                 then reordered (index_of p time_slots) time_slots
                 else time_slots))"

section \<open>DataStore (app101.py)\<close>

text \<open>
  The appointments in memory, the appointments last written to \<open>appointments.json\<close>, and
  the state of the store's own \<open>threading.Lock\<close>.
\<close>

record data_store =
  appointments :: "appointment list"
  appointments_file :: "appointment list"
  store_lock_held :: bool

definition save_appointments :: "data_store \<Rightarrow> data_store \<times> unit result" where
  "save_appointments store =
     (if store_lock_held store then (store, Blocks)
      else (store\<lparr>appointments_file := appointments store\<rparr>, Returns ()))"

text \<open>
  \<open>add_appointment\<close> appends under the lock and calls \<open>save_appointments\<close> while it
  still holds it.
\<close>

definition add_appointment :: "data_store \<Rightarrow> appointment \<Rightarrow> data_store \<times> unit result" where
  "add_appointment store a =
     (if store_lock_held store then (store, Blocks)
      else (case save_appointments
                   (store\<lparr>store_lock_held := True, appointments := appointments store @ [a]\<rparr>) of
              (store', Returns u) \<Rightarrow> (store'\<lparr>store_lock_held := False\<rparr>, Returns ())
            | (store', Raises msg) \<Rightarrow> (store'\<lparr>store_lock_held := False\<rparr>, Raises msg)
            | (store', Blocks) \<Rightarrow> (store', Blocks)))"

section \<open>CallSession (app101.py)\<close>

text \<open>
  \<open>customer_data\<close> is a dict with a fixed set of keys; a key that is absent (or holds
  \<open>None\<close>) is \<open>None\<close> here. \<open>filled\<close> is the truth test \<open>customer_data.get(key)\<close>.
\<close>

record customer_data =
  cd_name :: "string option"
  cd_phone :: "string option"
  cd_service :: "string option"
  cd_date :: "string option"
  cd_time :: "string option"
  cd_preferred_time :: "string option"
  cd_from_number :: "string option"
  cd_unavailable_time :: "string option"
  cd_conflict_reason :: "string option"
  cd_alternative_times :: "string list option"

definition no_data :: customer_data where
  "no_data =
     \<lparr>cd_name = None, cd_phone = None, cd_service = None, cd_date = None, cd_time = None,
      cd_preferred_time = None, cd_from_number = None, cd_unavailable_time = None,
      cd_conflict_reason = None, cd_alternative_times = None\<rparr>"

definition filled :: "string option \<Rightarrow> bool" where
  "filled v = (case v of None \<Rightarrow> False | Some s \<Rightarrow> s \<noteq> [])"

record call_session =
  call_sid :: string
  state :: string
  customer_data :: customer_data
  attempts :: int
  conversation_history :: "(string \<times> string \<times> string) list"
  emotion_state :: string
  urgency_level :: real
  last_response :: string
  session_created_at :: int

definition CallSession :: "string \<Rightarrow> int \<Rightarrow> call_session" where
  "CallSession sid now =
     \<lparr>call_sid = sid, state = ''greeting'', customer_data = no_data, attempts = 0,
      conversation_history = [], emotion_state = ''neutral'', urgency_level = 0.5,
      last_response = [], session_created_at = now\<rparr>"

section \<open>complete_booking (app101.py)\<close>

definition final_check_reply :: "string \<Rightarrow> string \<Rightarrow> string option \<Rightarrow> string list \<Rightarrow> string" where
  "final_check_reply date time conflict_details alternatives =
     (if alternatives \<noteq> [] then
        ''Oh no! I'm so sorry, but someone just booked the '' @ time @ '' slot on '' @ date @
        ''. That time is '' @ str_opt conflict_details @
        ''. However, I have these times available on the same day: '' @
        (join '', '' (take 2 alternatives) @
         (if length alternatives > 2 then '', or '' @ alternatives ! 2 else [])) @
        ''. Which one would work better for you?''
      else
        ''I'm really sorry, but the '' @ time @ '' slot on '' @ date @ '' is '' @
        str_opt conflict_details @
        ''. Unfortunately, we don't have any other times available that day. '' @
        ''Would you like to try a different day? Tomorrow perhaps?'')"

definition already_booked_reply :: "string \<Rightarrow> string option \<Rightarrow> string list \<Rightarrow> string" where
  "already_booked_reply time error_msg alternatives =
     (if alternatives \<noteq> [] then
        ''Oh, I apologize! Someone just booked that '' @ time @
        '' slot while we were talking. The system shows it's '' @ str_opt error_msg @
        ''. But don't worry, I have '' @ join '', '' (take 2 alternatives) @
        '' still available. Which would you prefer?''
      else
        ''I'm so sorry, but that time slot just got booked by someone else. '' @
        ''Would you like to try a different day?'')"

text \<open>
  The confirmation after the appointment is stored; \<open>pick\<close> is the draw of
  \<open>random.choice\<close>.
\<close>

definition confirmation_reply :: "appointment \<Rightarrow> bool \<Rightarrow> nat \<Rightarrow> string \<Rightarrow> string" where
  "confirmation_reply a calendar_success pick emotion =
     (let confirmations =
            (if calendar_success then
               [''Perfect! You're all set for your '' @ apt_service a @ '' on '' @ apt_date a @
                '' at '' @ apt_time a @ ''. This time slot is now reserved exclusively for you!'',
                ''Wonderful! I've successfully booked your '' @ apt_service a @ '' for '' @
                apt_date a @ '' at '' @ apt_time a @
                ''. No one else can book this time - it's all yours!'',
                ''Excellent! Your appointment is confirmed for '' @ apt_date a @ '' at '' @
                apt_time a @ ''. I've blocked off this time slot just for you!'']
             else
               [''I've noted your appointment for '' @ apt_service a @ '' on '' @ apt_date a @
                '' at '' @ apt_time a @ ''. We'll send you a confirmation shortly.'',
                ''Your '' @ apt_service a @ '' request for '' @ apt_date a @ '' at '' @
                apt_time a @ '' has been received. Someone will call you back to confirm.'']);
          confirmation = confirmations ! (pick mod length confirmations)
      in confirmation @
         (if emotion = ''pain'' then '' I hope we can help you feel better soon!''
          else if emotion = ''anxiety'' then '' Don't worry, we'll take great care of you!''
          else []) @
         '' Is there anything else I can help you with today?'')"

definition store_and_confirm ::
  "data_store \<Rightarrow> appointment \<Rightarrow> bool \<Rightarrow> nat \<Rightarrow> string \<Rightarrow> data_store \<times> string result" where
  "store_and_confirm store a calendar_success pick emotion =
     (case add_appointment store a of
        (store', Returns u) \<Rightarrow> (store', Returns (confirmation_reply a calendar_success pick emotion))
      | (store', Raises msg) \<Rightarrow> (store', Raises msg)
      | (store', Blocks) \<Rightarrow> (store', Blocks))"

text \<open>
  What \<open>complete_booking\<close> does once \<open>create_appointment\<close> has returned its triple
  \<open>(success, event_id, error_msg)\<close>.
\<close>

definition after_create ::
  "(string \<Rightarrow> string \<Rightarrow> string + int) \<Rightarrow> calendar_manager \<Rightarrow> data_store \<Rightarrow> appointment
     \<Rightarrow> bool \<times> nat option \<times> string option \<Rightarrow> nat \<Rightarrow> string
     \<Rightarrow> data_store \<times> string result" where
  "after_create P mgr store a created pick emotion =
     (case created of (success, event_id, error_msg) \<Rightarrow>
        if success \<and> event_id \<noteq> None
        then store_and_confirm store
               (a\<lparr>google_event_id := event_id, apt_status := ''confirmed''\<rparr>) True pick emotion
        else
          (case find_next_available_slots P mgr (apt_date a) (Some (apt_time a)) 3 of
             Blocks \<Rightarrow> (store, Blocks)
           | Raises msg \<Rightarrow> (store, Raises msg)
           | Returns alternatives \<Rightarrow>
               if contains (lower (case error_msg of None \<Rightarrow> [] | Some m \<Rightarrow> m)) ''already booked''
               then (store, Returns (already_booked_reply (apt_time a) error_msg alternatives))
               else store_and_confirm store
                      (a\<lparr>apt_status := ''pending_manual'',
                         apt_notes := ''Calendar sync failed: '' @ str_opt error_msg\<rparr>)
                      False pick emotion))"

text \<open>
  The second half of \<open>complete_booking\<close>: build the appointment, put it into the
  calendar where there is a calendar manager, and store it. \<open>now_iso\<close> is
  \<open>datetime.now().isoformat()\<close>; a missing \<open>name\<close> or \<open>service\<close> is a \<open>KeyError\<close>.
\<close>

definition book_appointment ::
  "(string \<Rightarrow> string \<Rightarrow> string + int) \<Rightarrow> calendar_manager option \<Rightarrow> data_store
     \<Rightarrow> call_session \<Rightarrow> string \<Rightarrow> string \<Rightarrow> string \<Rightarrow> nat
     \<Rightarrow> (calendar_manager option \<times> data_store) \<times> string result" where
  "book_appointment P calendar_manager store session date time now_iso pick =
     (let cd = customer_data session in
      case (cd_name cd, cd_service cd) of
        (Some name, Some service_name) \<Rightarrow>
          (let a = \<lparr>customer_name = name,
                    phone_number =
                      (case cd_phone cd of
                         Some p \<Rightarrow> p
                       | None \<Rightarrow> (case cd_from_number cd of Some f \<Rightarrow> f | None \<Rightarrow> [])),
                    apt_service = service_name, apt_date = date, apt_time = time,
                    apt_notes = [], apt_call_sid = call_sid session,
                    google_event_id = None, created_at = now_iso, apt_status = ''pending''\<rparr>
           in case calendar_manager of
                None \<Rightarrow>
                  (case store_and_confirm store a False pick (emotion_state session) of
                     (store', r) \<Rightarrow> ((None, store'), r))
              | Some mgr \<Rightarrow>
                  (case create_appointment P mgr a of
                     (mgr', Blocks) \<Rightarrow> ((Some mgr', store), Blocks)
                   | (mgr', Raises msg) \<Rightarrow> ((Some mgr', store), Raises msg)
                   | (mgr', Returns created) \<Rightarrow>
                       (case after_create P mgr' store a created pick (emotion_state session) of
                          (store', r) \<Rightarrow> ((Some mgr', store'), r))))
      | _ \<Rightarrow> ((calendar_manager, store), Raises ''KeyError''))"

text \<open>
  \<open>complete_booking\<close>: the final availability check, then the booking. A missing
  \<open>date\<close> or \<open>time\<close> is a \<open>KeyError\<close>. The answer is the calendar manager and the
  store as they are left, and the reply.
\<close>

definition complete_booking ::
  "(string \<Rightarrow> string \<Rightarrow> string + int) \<Rightarrow> calendar_manager option \<Rightarrow> data_store
     \<Rightarrow> call_session \<Rightarrow> string \<Rightarrow> nat
     \<Rightarrow> (calendar_manager option \<times> data_store) \<times> string result" where
  "complete_booking P calendar_manager store session now_iso pick =
     (case (cd_date (customer_data session), cd_time (customer_data session)) of
        (Some date, Some time) \<Rightarrow>
          (case calendar_manager of
             None \<Rightarrow> book_appointment P calendar_manager store session date time now_iso pick
           | Some mgr \<Rightarrow>
               (case check_availability P mgr date time None of
                  Blocks \<Rightarrow> ((calendar_manager, store), Blocks)
                | Raises msg \<Rightarrow> ((calendar_manager, store), Raises msg)
                | Returns (is_available, conflict_details) \<Rightarrow>
                    if \<not> is_available then
                      (case find_next_available_slots P mgr date (Some time) 3 of
                         Blocks \<Rightarrow> ((calendar_manager, store), Blocks)
                       | Raises msg \<Rightarrow> ((calendar_manager, store), Raises msg)
                       | Returns alternatives \<Rightarrow>
                           ((calendar_manager, store),
                            Returns (final_check_reply date time conflict_details alternatives)))
                    else book_appointment P calendar_manager store session date time now_iso pick))
      | _ \<Rightarrow> ((calendar_manager, store), Raises ''KeyError''))"

section \<open>Call sessions of the receptionist (app101.py)\<close>

text \<open>
  \<open>call_sessions\<close> is the dict of live sessions by call id, \<open>session_lock_held\<close> the
  state of \<open>self.session_lock\<close>.
\<close>

record receptionist =
  call_sessions :: "string \<rightharpoonup> call_session"
  session_lock_held :: bool

text \<open>
  \<open>handle_incoming_call\<close>: under the session lock, a new \<open>CallSession\<close> with the
  caller's number is stored under the call id. The reply is the greeting.
\<close>

definition handle_incoming_call ::
  "string \<Rightarrow> receptionist \<Rightarrow> string \<Rightarrow> string option \<Rightarrow> int \<Rightarrow> receptionist \<times> string result" where
  "handle_incoming_call business_name rcp sid from_number now =
     (if session_lock_held rcp then (rcp, Blocks)
      else
        (let session = (CallSession sid now)
                         \<lparr>customer_data := no_data\<lparr>cd_from_number := from_number\<rparr>\<rparr>
         in (rcp\<lparr>call_sessions := (call_sessions rcp)(sid \<mapsto> session)\<rparr>,
             Returns (''Thanks for calling '' @ business_name @
                      '', this is Sarah. How can I help you today?''))))"

section \<open>Extraction of booking details (app101.py)\<close>

text \<open>A service of the business: its name and its keywords.\<close>

record service_entry =
  svc_name :: string
  svc_keywords :: "string list"

definition matches_input :: "service_entry \<Rightarrow> string \<Rightarrow> bool" where
  "matches_input s text =
     (contains (lower text) (lower (svc_name s)) \<or>
      list_ex (\<lambda>keyword. contains (lower text) (lower keyword)) (svc_keywords s))"

text \<open>
  What the extraction takes from outside the program, each a function of the text alone:
  \<^item> \<open>name_patterns\<close>: the five \<open>re.search\<close> patterns for a name, tried in order; the
    title-cased first group of the first that matches;
  \<^item> \<open>spelled_name\<close>: the fallback for an answer to the name question (letters joined,
    filler words dropped); the title-cased words when one to three remain;
  \<^item> \<open>time_pattern_matches\<close>: whether one of the three patterns of \<open>extract_time\<close>
    matches the lowered text;
  \<^item> \<open>gemini_enabled\<close>, \<open>gemini_time\<close>: whether the AI model is asked, and its answer
    when it is a time;
  \<^item> \<open>phone_pattern\<close>: the ten digits the phone pattern finds;
  \<^item> \<open>weekday_today\<close> and \<open>date_in_days\<close>: \<open>datetime.now().weekday()\<close>, and the
    date so many days from today as \<open>strftime("%A, %B %d")\<close> writes it.
\<close>

record text_engine =
  name_patterns :: "string \<Rightarrow> string option"
  spelled_name :: "string \<Rightarrow> string option"
  time_pattern_matches :: "string \<Rightarrow> bool"
  gemini_enabled :: bool
  gemini_time :: "string \<Rightarrow> string option"
  phone_pattern :: "string \<Rightarrow> string option"
  weekday_today :: nat
  date_in_days :: "nat \<Rightarrow> string"

text \<open>A value that fails Python's truth test counts as no value.\<close>

definition truthy :: "string option \<Rightarrow> string option" where
  "truthy v = (if filled v then v else None)"

definition days :: "string list" where
  "days = [''monday'', ''tuesday'', ''wednesday'', ''thursday'', ''friday'', ''saturday'',
           ''sunday'']"

definition extract_date :: "text_engine \<Rightarrow> string \<Rightarrow> string option" where
  "extract_date E text =
     (let text_lower = lower text in
      if contains text_lower ''today'' then Some (date_in_days E 0)
      else if contains text_lower ''tomorrow'' then Some (date_in_days E 1)
      else (case find (\<lambda>day. contains text_lower day) days of
              None \<Rightarrow> None
            | Some day \<Rightarrow>
                (let days_ahead = nat ((int (index_of day days) - int (weekday_today E)) mod 7)
                 in Some (date_in_days E (if days_ahead = 0 then 7 else days_ahead)))))"

text \<open>
  \<open>extract_time\<close>: the formatter of the first pattern that matches is called with
  \<open>match.groups()\<close> and reads it from index 1 up to the number of groups, one place past
  its end, so every match of a pattern ends in an \<open>IndexError\<close>. Without a match the AI
  model is asked (when enabled), then the words for the part of the day are looked for.
\<close>

definition extract_time :: "text_engine \<Rightarrow> string \<Rightarrow> string option result" where
  "extract_time E text =
     (if time_pattern_matches E (lower text) then Raises ''IndexError''
      else
        (case (if gemini_enabled E then gemini_time E text else None) of
           Some t \<Rightarrow> Returns (Some t)
         | None \<Rightarrow>
             if contains (lower text) ''morning'' then Returns (Some ''9:00 AM'')
             else if contains (lower text) ''afternoon'' then Returns (Some ''12:00 PM'')
             else if contains (lower text) ''evening'' then Returns (Some ''5:00 PM'')
             else Returns None))"

text \<open>
  \<open>_check_and_set_time\<close>: without a date nothing happens; without a calendar manager
  the time is taken as it is; otherwise it is taken when the slot is available, and the
  refusal is noted when it is not.
\<close>

definition check_and_set_time ::
  "(string \<Rightarrow> string \<Rightarrow> string + int) \<Rightarrow> calendar_manager option \<Rightarrow> customer_data \<Rightarrow> string
     \<Rightarrow> customer_data result" where
  "check_and_set_time P calendar_manager cd time =
     (case truthy (cd_date cd) of
        None \<Rightarrow> Returns cd
      | Some date \<Rightarrow>
          (case calendar_manager of
             None \<Rightarrow> Returns (cd\<lparr>cd_time := Some time\<rparr>)
           | Some mgr \<Rightarrow>
               (case check_availability P mgr date time None of
                  Blocks \<Rightarrow> Blocks
                | Raises msg \<Rightarrow> Raises msg
                | Returns (is_available, conflict_details) \<Rightarrow>
                    if is_available then Returns (cd\<lparr>cd_time := Some time\<rparr>)
                    else (case find_next_available_slots P mgr date (Some time) 3 of
                            Blocks \<Rightarrow> Blocks
                          | Raises msg \<Rightarrow> Raises msg
                          | Returns alternatives \<Rightarrow>
                              Returns (cd\<lparr>cd_unavailable_time := Some time,
                                         cd_conflict_reason := conflict_details,
                                         cd_alternative_times := Some alternatives\<rparr>)))))"

text \<open>
  One step after another: a step that raises or waits ends the extraction there. (In the
  code the fields set by the earlier steps stay on the session; the outcome here does
  not carry them.)
\<close>

definition and_then :: "'a result \<Rightarrow> ('a \<Rightarrow> 'b result) \<Rightarrow> 'b result" where
  "and_then r f = (case r of Returns x \<Rightarrow> f x | Raises msg \<Rightarrow> Raises msg | Blocks \<Rightarrow> Blocks)"

text \<open>
  The block inside the branch for the name: a time for a session that has a date and no
  time, with \<open>9:00\<close> in the text read as \<open>9:00 AM\<close> when \<open>extract_time\<close> found nothing.
\<close>

definition time_in_name_branch ::
  "text_engine \<Rightarrow> (string \<Rightarrow> string \<Rightarrow> string + int) \<Rightarrow> calendar_manager option \<Rightarrow> string
     \<Rightarrow> customer_data \<Rightarrow> customer_data result" where
  "time_in_name_branch E P calendar_manager text cd =
     (if \<not> filled (cd_time cd) \<and> filled (cd_date cd) then
        and_then (extract_time E text)
          (\<lambda>found.
             case (case truthy found of
                     Some time \<Rightarrow> Some time
                   | None \<Rightarrow> if contains (lower text) ''9:00'' then Some ''9:00 AM'' else None) of
               Some time \<Rightarrow> check_and_set_time P calendar_manager cd time
             | None \<Rightarrow> Returns cd)
      else Returns cd)"

text \<open>
  The branch \<open>if not customer_data.get('name')\<close>: the name patterns, then the block
  above, then the fallback while the session is gathering the name.
\<close>

definition name_branch ::
  "text_engine \<Rightarrow> (string \<Rightarrow> string \<Rightarrow> string + int) \<Rightarrow> calendar_manager option \<Rightarrow> string
     \<Rightarrow> string \<Rightarrow> customer_data \<Rightarrow> customer_data result" where
  "name_branch E P calendar_manager session_state text cd =
     (if filled (cd_name cd) then Returns cd
      else
        (let cd1 = (case truthy (name_patterns E text) of
                      Some name \<Rightarrow> cd\<lparr>cd_name := Some name\<rparr>
                    | None \<Rightarrow> cd)
         in and_then (time_in_name_branch E P calendar_manager text cd1)
              (\<lambda>cd2. Returns
                 (if \<not> filled (cd_name cd2) \<and> session_state = ''gathering_name'' then
                    (case truthy (spelled_name E text) of
                       Some name \<Rightarrow> cd2\<lparr>cd_name := Some name\<rparr>
                     | None \<Rightarrow> cd2)
                  else cd2))))"

definition service_branch :: "service_entry list \<Rightarrow> string \<Rightarrow> customer_data \<Rightarrow> customer_data" where
  "service_branch services text cd =
     (if filled (cd_service cd) then cd
      else (case find (\<lambda>s. matches_input s text) services of
              Some s \<Rightarrow> cd\<lparr>cd_service := Some (svc_name s)\<rparr>
            | None \<Rightarrow> cd))"

definition date_branch ::
  "text_engine \<Rightarrow> (string \<Rightarrow> string \<Rightarrow> string + int) \<Rightarrow> calendar_manager option \<Rightarrow> string
     \<Rightarrow> customer_data \<Rightarrow> customer_data result" where
  "date_branch E P calendar_manager text cd =
     (if filled (cd_date cd) then Returns cd
      else (case truthy (extract_date E text) of
              None \<Rightarrow> Returns cd
            | Some date \<Rightarrow>
                (case truthy (cd_preferred_time cd) of
                   Some preferred \<Rightarrow>
                     check_and_set_time P calendar_manager (cd\<lparr>cd_date := Some date\<rparr>) preferred
                 | None \<Rightarrow> Returns (cd\<lparr>cd_date := Some date\<rparr>))))"

definition time_branch ::
  "text_engine \<Rightarrow> (string \<Rightarrow> string \<Rightarrow> string + int) \<Rightarrow> calendar_manager option \<Rightarrow> string
     \<Rightarrow> customer_data \<Rightarrow> customer_data result" where
  "time_branch E P calendar_manager text cd =
     (if \<not> filled (cd_time cd) \<and> filled (cd_date cd) then
        and_then (extract_time E text)
          (\<lambda>found. case truthy found of
                      Some time \<Rightarrow> check_and_set_time P calendar_manager cd time
                    | None \<Rightarrow> Returns cd)
      else if \<not> filled (cd_time cd) \<and> \<not> filled (cd_date cd) then
        and_then (extract_time E text)
          (\<lambda>found. case truthy found of
                      Some time \<Rightarrow> Returns (cd\<lparr>cd_preferred_time := Some time\<rparr>)
                    | None \<Rightarrow> Returns cd)
      else Returns cd)"

definition phone_branch :: "text_engine \<Rightarrow> string \<Rightarrow> customer_data \<Rightarrow> customer_data" where
  "phone_branch E text cd =
     (if filled (cd_phone cd) then cd
      else (case phone_pattern E text of
              Some digits \<Rightarrow> cd\<lparr>cd_phone := Some digits\<rparr>
            | None \<Rightarrow>
                if filled (cd_from_number cd) then cd\<lparr>cd_phone := cd_from_number cd\<rparr> else cd))"

definition extract_booking_info ::
  "text_engine \<Rightarrow> (string \<Rightarrow> string \<Rightarrow> string + int) \<Rightarrow> calendar_manager option
     \<Rightarrow> service_entry list \<Rightarrow> call_session \<Rightarrow> string \<Rightarrow> call_session result" where
  "extract_booking_info E P calendar_manager services session text =
     and_then (name_branch E P calendar_manager (state session) text (customer_data session))
       (\<lambda>cd1. and_then (date_branch E P calendar_manager text (service_branch services text cd1))
          (\<lambda>cd2. and_then (time_branch E P calendar_manager text cd2)
             (\<lambda>cd3. Returns (session\<lparr>customer_data := phone_branch E text cd3\<rparr>))))"

section \<open>Extraction of booking details (infobridge.py)\<close>

text \<open>
  What infobridge.py's extraction takes from outside, each a function of the text:
  \<^item> \<open>name_candidates_ib\<close>: for each of the two name patterns that matches the lowered
    text, in order, its first group, stripped;
  \<^item> \<open>title_ib\<close>: \<open>str.title()\<close>;
  \<^item> \<open>extract_date_ib\<close>, \<open>extract_time_ib\<close>: the results of \<open>extract_date\<close> and
    \<open>extract_time\<close> on the lowered text;
  \<^item> \<open>nearest_time_ib\<close>: \<open>find_nearest_available_time\<close>;
  \<^item> \<open>phone_pattern_ib\<close>: the digits of what the phone pattern finds.
\<close>

record text_engine_ib =
  name_candidates_ib :: "string \<Rightarrow> string list"
  title_ib :: "string \<Rightarrow> string"
  extract_date_ib :: "string \<Rightarrow> string option"
  extract_time_ib :: "string \<Rightarrow> string option"
  nearest_time_ib :: "string \<Rightarrow> string option"
  phone_pattern_ib :: "string \<Rightarrow> string option"

text \<open>The number of words \<open>str.split()\<close> gives.\<close>

fun count_words :: "bool \<Rightarrow> string \<Rightarrow> nat" where
  "count_words in_word [] = 0"
| "count_words in_word (c # cs) =
     (if c \<in> set [CHR '' '', CHR 0x09, CHR 0x0A, CHR 0x0B, CHR 0x0C, CHR 0x0D]
      then count_words False cs
      else (if in_word then 0 else 1) + count_words True cs)"

definition acceptable_name :: "string \<Rightarrow> bool" where
  "acceptable_name potential_name =
     (potential_name \<notin> set [''yes'', ''no'', ''yeah'', ''nope'', ''sure'', ''okay'', ''ok'', ''um'',
                               ''uh''] \<and>
      length potential_name > 1 \<and> count_words False potential_name \<le> 4)"

definition extract_booking_info_ib ::
  "text_engine_ib \<Rightarrow> service_entry list \<Rightarrow> string list \<Rightarrow> customer_data \<Rightarrow> string
     \<Rightarrow> customer_data" where
  "extract_booking_info_ib E services available_times cd user_input =
     (let user_input_lower = lower user_input;
          cd1 = (if filled (cd_name cd) then cd
                 else (case find acceptable_name (name_candidates_ib E user_input_lower) of
                         Some potential_name \<Rightarrow> cd\<lparr>cd_name := Some (title_ib E potential_name)\<rparr>
                       | None \<Rightarrow> cd));
          cd2 = (if filled (cd_service cd1) then cd1
                 else (case find (\<lambda>s. list_ex (\<lambda>keyword. contains user_input_lower keyword)
                                         (svc_keywords s @ [lower (svc_name s)])) services of
                         Some s \<Rightarrow> cd1\<lparr>cd_service := Some (svc_name s)\<rparr>
                       | None \<Rightarrow> cd1));
          cd3 = (if filled (cd_date cd2) then cd2
                 else (case truthy (extract_date_ib E user_input_lower) of
                         Some date \<Rightarrow> cd2\<lparr>cd_date := Some date\<rparr>
                       | None \<Rightarrow> cd2));
          cd4 = (if filled (cd_time cd3) then cd3
                 else (case truthy (extract_time_ib E user_input_lower) of
                         None \<Rightarrow> cd3
                       | Some time \<Rightarrow>
                           if time \<in> set available_times then cd3\<lparr>cd_time := Some time\<rparr>
                           else (case truthy (nearest_time_ib E time) of
                                   Some nearest \<Rightarrow> cd3\<lparr>cd_time := Some nearest\<rparr>
                                 | None \<Rightarrow> cd3)))
      in (case phone_pattern_ib E user_input of
            Some digits \<Rightarrow> cd4\<lparr>cd_phone := Some digits\<rparr>
          | None \<Rightarrow> cd4))"

section \<open>Sample data\<close>

definition booking :: "string \<Rightarrow> string \<Rightarrow> string \<Rightarrow> appointment" where
  "booking who what slot =
     \<lparr>customer_name = who, phone_number = ''5550100'', apt_service = what,
      apt_date = ''Friday, June 06'', apt_time = slot, apt_notes = [], apt_call_sid = ''CA1'',
      google_event_id = None, created_at = [], apt_status = ''pending''\<rparr>"

definition busy_event :: "nat \<Rightarrow> int \<Rightarrow> int \<Rightarrow> gcal_event" where
  "busy_event i s t = \<lparr>ev_id = i, ev_summary = ''BOOKED'', ev_start = Some s, ev_end = Some t\<rparr>"

definition backend_with :: "gcal_event list \<Rightarrow> calendar_backend" where
  "backend_with evs = \<lparr>cal_events = evs, cal_down = None, cal_next_id = Suc (length evs)\<rparr>"

definition manager_with :: "gcal_event list \<Rightarrow> calendar_manager" where
  "manager_with evs =
     \<lparr>service = Some (backend_with evs), appointment_duration = 60, lock_held = False\<rparr>"

definition outage :: calendar_backend where
  "outage = \<lparr>cal_events = [], cal_down = Some ''HttpError 503'', cal_next_id = 1\<rparr>"

definition caller :: "string option \<Rightarrow> string option \<Rightarrow> call_session" where
  "caller d t =
     (CallSession ''CA1'' 0)
       \<lparr>customer_data := no_data\<lparr>cd_name := Some ''Jane'', cd_service := Some ''Cleaning'',
                                   cd_date := d, cd_time := t\<rparr>\<rparr>"

definition empty_store :: data_store where
  "empty_store = \<lparr>appointments = [], appointments_file = [], store_lock_held = False\<rparr>"

definition default_services :: "service_entry list" where
  "default_services =
     [\<lparr>svc_name = ''Quick Assessment'',
       svc_keywords = [''assessment'', ''quick'', ''evaluation'', ''check'', ''check-up'']\<rparr>,
      \<lparr>svc_name = ''Consultation'',
       svc_keywords = [''consultation'', ''consult'', ''checkup'', ''exam'']\<rparr>,
      \<lparr>svc_name = ''Cleaning'', svc_keywords = [''cleaning'', ''clean'', ''hygiene'']\<rparr>,
      \<lparr>svc_name = ''Emergency'',
       svc_keywords = [''emergency'', ''urgent'', ''pain'', ''hurt'', ''ache'']\<rparr>]"

definition quiet_engine :: text_engine where
  "quiet_engine =
     \<lparr>name_patterns = (\<lambda>text. None), spelled_name = (\<lambda>text. None),
      time_pattern_matches = (\<lambda>text. False), gemini_enabled = False, gemini_time = (\<lambda>text. None),
      phone_pattern = (\<lambda>text. None), weekday_today = 2,
      date_in_days = (\<lambda>n. [''Wednesday, November 04'', ''Thursday, November 05'',
                             ''Friday, November 06'', ''Saturday, November 07'',
                             ''Sunday, November 08'', ''Monday, November 09'',
                             ''Tuesday, November 10'', ''Wednesday, November 11''] ! n)\<rparr>"

definition new_caller :: call_session where
  "new_caller = (CallSession ''CA1'' 0)\<lparr>customer_data := no_data\<lparr>cd_from_number := Some ''+15550100''\<rparr>\<rparr>"

definition in_progress :: call_session where
  "in_progress =
     (CallSession ''CA1'' 0)
       \<lparr>state := ''gathering_date'',
        customer_data := no_data\<lparr>cd_name := Some ''Jane'', cd_service := Some ''Cleaning'',
                                   cd_from_number := Some ''+15550100''\<rparr>,
        attempts := 2,
        conversation_history := [(''user'', ''My name is Jane, I need a cleaning'', ''09:00:05'')]\<rparr>"

definition eager_engine :: text_engine where
  "eager_engine =
     quiet_engine\<lparr>name_patterns := (\<lambda>text. Some ''Bob''),
                  time_pattern_matches := (\<lambda>text. True),
                  phone_pattern := (\<lambda>text. Some ''5559876543'')\<rparr>"

definition settled_caller :: call_session where
  "settled_caller =
     (CallSession ''CA1'' 0)
       \<lparr>state := ''confirming'',
        customer_data := no_data\<lparr>cd_name := Some ''Jane'', cd_phone := Some ''5550100'',
                                   cd_service := Some ''Cleaning'',
                                   cd_date := Some ''Friday, June 06'',
                                   cd_time := Some ''10:00 AM''\<rparr>\<rparr>"

definition quiet_engine_ib :: text_engine_ib where
  "quiet_engine_ib =
     \<lparr>name_candidates_ib = (\<lambda>text. []), title_ib = (\<lambda>name. name),
      extract_date_ib = (\<lambda>text. None), extract_time_ib = (\<lambda>text. None),
      nearest_time_ib = (\<lambda>time. None), phone_pattern_ib = (\<lambda>text. None)\<rparr>"

definition default_services_ib :: "service_entry list" where
  "default_services_ib =
     [\<lparr>svc_name = ''Consultation'',
       svc_keywords = [''consultation'', ''consult'', ''checkup'', ''check-up'', ''exam'',
                       ''examination'']\<rparr>,
      \<lparr>svc_name = ''Full Service'',
       svc_keywords = [''full'', ''complete'', ''comprehensive'', ''deep cleaning'',
                       ''full service'']\<rparr>,
      \<lparr>svc_name = ''Quick Assessment'',
       svc_keywords = [''quick'', ''emergency'', ''urgent'', ''pain'', ''hurt'', ''ache'',
                       ''assessment'']\<rparr>]"

definition available_times_ib :: "string list" where
  "available_times_ib =
     [''8:00 AM'', ''8:30 AM'', ''9:00 AM'', ''9:30 AM'', ''10:00 AM'', ''10:30 AM'',
      ''11:00 AM'', ''11:30 AM'', ''12:00 PM'', ''1:00 PM'', ''1:30 PM'', ''2:00 PM'',
      ''2:30 PM'', ''3:00 PM'', ''3:30 PM'', ''4:00 PM'', ''4:30 PM'']"

section \<open>Properties the results are stated with\<close>

text \<open>
  An event stands in the way of a slot, as the loop of \<open>check_availability\<close> sees it: it
  is not the excluded one, it has both times, and the four-way test holds on the slot and
  the event as they are.
\<close>

definition blocks_slot :: "int \<Rightarrow> int \<Rightarrow> nat option \<Rightarrow> gcal_event \<Rightarrow> bool" where
  "blocks_slot appointment_date appointment_end exclude_event_id e =
     (exclude_event_id \<noteq> Some (ev_id e) \<and>
      (case (ev_start e, ev_end e) of
         (Some s, Some t) \<Rightarrow> has_overlap appointment_date appointment_end s t
       | _ \<Rightarrow> False))"

text \<open>
  The conflict as the specification words it: the slot and every event are first widened
  by the buffer on each side, then put to the four-way test.
\<close>

definition buffered_conflict ::
  "int \<Rightarrow> int \<Rightarrow> int \<Rightarrow> nat option \<Rightarrow> gcal_event list \<Rightarrow> bool" where
  "buffered_conflict buffer slot_start slot_end exclude_event_id evs =
     list_ex (\<lambda>e. exclude_event_id \<noteq> Some (ev_id e) \<and>
                  (case (ev_start e, ev_end e) of
                     (Some s, Some t) \<Rightarrow>
                       has_overlap (slot_start - buffer) (slot_end + buffer)
                         (s - buffer) (t + buffer)
                   | _ \<Rightarrow> False)) evs"

text \<open>
  A slot is available when the check returns and says so. The distance of two minutes
  of the day, and the order the specification asks for: nearer to the preferred time
  first, the later of two equally near slots first.
\<close>

definition slot_available ::
  "(string \<Rightarrow> string \<Rightarrow> string + int) \<Rightarrow> calendar_manager \<Rightarrow> string \<Rightarrow> string \<Rightarrow> bool" where
  "slot_available P mgr date_str time_slot =
     (case check_availability P mgr date_str time_slot None of
        Returns (is_available, details) \<Rightarrow> is_available
      | _ \<Rightarrow> False)"

definition gap :: "nat \<Rightarrow> nat \<Rightarrow> nat" where
  "gap a b = (if a \<le> b then b - a else a - b)"

definition nearer_or_later :: "nat option \<Rightarrow> nat option \<Rightarrow> nat option \<Rightarrow> bool" where
  "nearer_or_later p s s' =
     (case (p, s, s') of
        (Some c, Some a, Some b) \<Rightarrow> gap c a < gap c b \<or> (gap c a = gap c b \<and> b < a)
      | _ \<Rightarrow> False)"

definition offered_before :: "string \<Rightarrow> string \<Rightarrow> string \<Rightarrow> bool" where
  "offered_before p s s' = nearer_or_later (clock_minutes p) (clock_minutes s) (clock_minutes s')"

text \<open>
  A breaker of infobridge.py that is not closed has counted at least
  \<open>failure_threshold\<close> failures.
\<close>

definition armed_ib :: "circuit_breaker_ib \<Rightarrow> bool" where
  "armed_ib cb = (state_ib cb = Closed \<or> failure_threshold_ib cb \<le> failure_count_ib cb)"

section \<open>Circuit breaker: results\<close>

text \<open>
  C4 (the code at the failing input). With the defaults of infobridge.py (threshold 5,
  recovery 60 s, success threshold 2), four failures, then a success, then one more
  failure leave the breaker open, although no five failures were consecutive: a success
  while closed does not reset \<open>failure_count\<close>. All six calls reached the function.
\<close>

theorem breaker_ib_opens_without_consecutive_failures:
  "calls_ib (CircuitBreaker_ib 5 60 2)
     [(1, failing, 1), (2, failing, 2), (3, failing, 3), (4, failing, 4),
      (5, succeeding, 5), (6, failing, 6)] 0
   = (\<lparr>failure_threshold_ib = 5, recovery_timeout_ib = 60, success_threshold_ib = 2,
       failure_count_ib = 5, success_count_ib = 0, last_failure_time_ib = Some 6,
       state_ib = Opened\<rparr>, 6)"
  by (simp add: CircuitBreaker_ib_def call_ib_def attempt_ib_def on_success_ib_def
      on_failure_ib_def failing_def succeeding_def Let_def)

section \<open>Availability check: results\<close>

lemma scan_events_conflict:
  "(\<not> fst (scan_events a b ex evs)) = (\<exists>e\<in>set evs. blocks_slot a b ex e)"
  by (induction evs) (auto simp: blocks_slot_def split: option.splits)

text \<open>
  C5, as the code has it. With a service configured, the lock free, a slot that parses
  and a backend that answers, \<open>check_availability\<close> returns, and it reports a conflict
  exactly when one of the listed events (not the excluded one, with both times) passes
  the four-way test against the slot itself, from its start to its start plus the
  appointment duration. The 15 minutes only widen the window that is listed.
\<close>

theorem check_availability_conflict_iff_overlap:
  assumes "service mgr = Some svc" and "\<not> lock_held mgr" and "P d t = Inr a"
    and "events_list svc (a - 15) (a + appointment_duration mgr + 15) = Inr evs"
  shows "\<exists>r. check_availability P mgr d t ex = Returns r \<and>
             (\<not> fst r) = (\<exists>e\<in>set evs. blocks_slot a (a + appointment_duration mgr) ex e)"
  using assms by (simp add: check_availability_def check_locked_def scan_events_conflict)

theorem check_availability_conflict_iff_overlap_witness:
  "\<exists>r. check_availability same_day_parse
          (manager_with [busy_event 1 540 590, busy_event 2 630 690])
          ''Friday, June 06'' ''10:00 AM'' None = Returns r \<and> \<not> fst r \<and>
        (\<exists>e\<in>set [busy_event 1 540 590, busy_event 2 630 690]. blocks_slot 600 660 None e)"
  using check_availability_conflict_iff_overlap
      [of "manager_with [busy_event 1 540 590, busy_event 2 630 690]"
          "backend_with [busy_event 1 540 590, busy_event 2 630 690]" same_day_parse
          "''Friday, June 06''" "''10:00 AM''" 600
          "[busy_event 1 540 590, busy_event 2 630 690]" None]
  by (simp add: manager_with_def backend_with_def same_day_parse_def clock_minutes_def
      digit_of_def events_list_def in_window_def busy_event_def blocks_slot_def
      has_overlap_def)

text \<open>
  C5, as the claim states it, fails: an event from 9:00 to 9:50 and a request for 10:00
  to 11:00 overlap once both are widened by 15 minutes, and the check reports the slot
  free.
\<close>

theorem buffered_conflict_not_reported:
  "check_availability same_day_parse (manager_with [busy_event 1 540 590])
     ''Friday, June 06'' ''10:00 AM'' None = Returns (True, None) \<and>
   buffered_conflict 15 600 660 None [busy_event 1 540 590]"
  by (simp add: manager_with_def backend_with_def same_day_parse_def clock_minutes_def
      digit_of_def events_list_def in_window_def busy_event_def check_availability_def
      check_locked_def has_overlap_def buffered_conflict_def)

text \<open>
  C6, as the code has it. When the backend raises during the check, app101.py's
  \<open>check_availability\<close> (service configured, lock free) answers "not available, unable
  to verify availability due to system error", and infobridge.py's
  \<open>_check_availability_internal\<close> answers "available".
\<close>

theorem backend_error_closed_in_app101_open_in_infobridge:
  assumes "service mgr = Some svc" and "\<not> lock_held mgr" and "cal_down svc = Some msg"
    and "service_ib mgr_ib = Some svc_ib" and "cal_down svc_ib = Some msg_ib"
  shows "check_availability P mgr d t ex =
           Returns (False, Some ''unable to verify availability due to system error'') \<and>
         check_availability_internal_ib P_ib mgr_ib d_ib t_ib = True"
  using assms
  by (simp add: check_availability_def check_locked_def events_list_def system_error_def
      check_availability_internal_ib_def split: sum.splits)

theorem backend_error_closed_in_app101_open_in_infobridge_witness:
  "check_availability same_day_parse
     \<lparr>service = Some outage, appointment_duration = 60, lock_held = False\<rparr>
     ''Friday, June 06'' ''10:00 AM'' None =
     Returns (False, Some ''unable to verify availability due to system error'') \<and>
   check_availability_internal_ib same_day_parse
     \<lparr>service_ib = Some outage, availability_cache = Map.empty, cache_ttl = 300\<rparr>
     ''Friday, June 06'' ''10:00 AM'' = True"
  using backend_error_closed_in_app101_open_in_infobridge
      [of "\<lparr>service = Some outage, appointment_duration = 60, lock_held = False\<rparr>" outage
          "''HttpError 503''"
          "\<lparr>service_ib = Some outage, availability_cache = Map.empty, cache_ttl = 300\<rparr>"
          outage "''HttpError 503''" same_day_parse "''Friday, June 06''" "''10:00 AM''" None
          same_day_parse "''Friday, June 06''" "''10:00 AM''"]
  by (simp add: outage_def)

text \<open>
  C6, as the claim states it, fails on app101.py: with the backend down the check does
  not report the slot available.
\<close>

theorem backend_error_reported_unavailable:
  "check_availability same_day_parse
     \<lparr>service = Some outage, appointment_duration = 60, lock_held = False\<rparr>
     ''Friday, June 06'' ''10:00 AM'' None
   = Returns (False, Some ''unable to verify availability due to system error'')"
  by (simp add: check_availability_def check_locked_def events_list_def system_error_def
      outage_def same_day_parse_def clock_minutes_def digit_of_def)

section \<open>Booking into the calendar: results\<close>

lemma create_waits_for_its_own_lock:
  "service mgr = Some svc \<Longrightarrow> \<not> lock_held mgr \<Longrightarrow>
   create_appointment P mgr a = (mgr\<lparr>lock_held := True\<rparr>, Blocks)"
  by (simp add: create_appointment_def check_availability_def)

lemma create_waits_for_held_lock:
  "service mgr = Some svc \<Longrightarrow> lock_held mgr \<Longrightarrow> create_appointment P mgr a = (mgr, Blocks)"
  by (simp add: create_appointment_def)

lemma create_without_service:
  "service mgr = None \<Longrightarrow>
   create_appointment P mgr a = (mgr, Returns (False, None, Some ''Calendar service not available''))"
  by (simp add: create_appointment_def)

lemma create_appointment_outcomes:
  "snd (create_appointment P m a) = Blocks \<or>
   snd (create_appointment P m a) = Returns (False, None, Some ''Calendar service not available'')"
proof (cases "service m")
  case None
  then show ?thesis by (simp add: create_without_service)
next
  case (Some svc)
  then show ?thesis
    using create_waits_for_its_own_lock [OF Some, of P a] create_waits_for_held_lock [OF Some, of P a]
    by (cases "lock_held m") simp_all
qed

text \<open>
  C3 (the code at the failing inputs). With a service configured and the lock free,
  \<open>create_appointment\<close> never returns, whatever the appointment: it takes the lock, and
  the availability check it then calls waits for that same lock. The lock stays held and
  the calendar is as it was.
\<close>

theorem create_appointment_never_returns:
  assumes "service mgr = Some svc" and "\<not> lock_held mgr"
  shows "create_appointment P mgr a = (mgr\<lparr>lock_held := True\<rparr>, Blocks)"
  using assms by (rule create_waits_for_its_own_lock)

theorem create_appointment_never_returns_witness:
  "create_appointment same_day_parse (manager_with []) (booking ''Jane'' ''Cleaning'' ''10:00 AM'')
   = ((manager_with [])\<lparr>lock_held := True\<rparr>, Blocks)"
  using create_appointment_never_returns
      [of "manager_with []" "backend_with []" same_day_parse
          "booking ''Jane'' ''Cleaning'' ''10:00 AM''"]
  by (simp add: manager_with_def)

text \<open>
  C2 (the code at the failing input). Two calls for the same slot, one after the other:
  the first never returns and keeps the lock, the second waits for the lock; neither
  gets an event id or a conflict, and no event is inserted.
\<close>

theorem two_creates_for_one_slot_both_wait:
  assumes "service mgr = Some svc" and "\<not> lock_held mgr"
  shows "create_appointment P mgr a = (mgr\<lparr>lock_held := True\<rparr>, Blocks) \<and>
         create_appointment P (mgr\<lparr>lock_held := True\<rparr>) b = (mgr\<lparr>lock_held := True\<rparr>, Blocks) \<and>
         service (mgr\<lparr>lock_held := True\<rparr>) = Some svc"
  using assms
  by (simp add: create_waits_for_its_own_lock [of mgr svc]
      create_waits_for_held_lock [of "mgr\<lparr>lock_held := True\<rparr>" svc])

theorem two_creates_for_one_slot_both_wait_witness:
  "create_appointment same_day_parse (manager_with [])
     (booking ''Jane'' ''Cleaning'' ''10:00 AM'')
   = ((manager_with [])\<lparr>lock_held := True\<rparr>, Blocks) \<and>
   create_appointment same_day_parse ((manager_with [])\<lparr>lock_held := True\<rparr>)
     (booking ''Omar'' ''Consultation'' ''10:00 AM'')
   = ((manager_with [])\<lparr>lock_held := True\<rparr>, Blocks) \<and>
   service ((manager_with [])\<lparr>lock_held := True\<rparr>) = Some (backend_with [])"
  using two_creates_for_one_slot_both_wait
      [of "manager_with []" "backend_with []" same_day_parse
          "booking ''Jane'' ''Cleaning'' ''10:00 AM''"
          "booking ''Omar'' ''Consultation'' ''10:00 AM''"]
  by (simp add: manager_with_def)

text \<open>
  C1 (the code at the failing input). infobridge.py: the calendar already holds an event
  from 10:00 to 11:00, and the cache holds a 100 seconds old "available" for that slot.
  The authoritative check says "taken", the cached check says "available", and
  \<open>create_appointment\<close> inserts a second event into the slot without asking either.
\<close>

theorem create_appointment_ib_inserts_into_taken_slot:
  "check_availability_internal_ib same_day_parse
     \<lparr>service_ib = Some (backend_with [busy_event 1 600 660]),
      availability_cache = [''Friday, June 06:10:00 AM'' \<mapsto> (True, 0)], cache_ttl = 300\<rparr>
     ''Friday, June 06'' ''10:00 AM'' = False \<and>
   check_availability_ib same_day_parse
     \<lparr>service_ib = Some (backend_with [busy_event 1 600 660]),
      availability_cache = [''Friday, June 06:10:00 AM'' \<mapsto> (True, 0)], cache_ttl = 300\<rparr>
     100 ''Friday, June 06'' ''10:00 AM'' = True \<and>
   create_appointment_ib same_day_parse
     \<lparr>service_ib = Some (backend_with [busy_event 1 600 660]),
      availability_cache = [''Friday, June 06:10:00 AM'' \<mapsto> (True, 0)], cache_ttl = 300\<rparr>
     (booking ''Jane'' ''Cleaning'' ''10:00 AM'')
   = (\<lparr>service_ib = Some \<lparr>cal_events =
          [busy_event 1 600 660,
           \<lparr>ev_id = 2, ev_summary = ''Cleaning - Jane'', ev_start = Some 600,
            ev_end = Some 660\<rparr>],
          cal_down = None, cal_next_id = 3\<rparr>,
       availability_cache = [''Friday, June 06:10:00 AM'' \<mapsto> (True, 0)], cache_ttl = 300\<rparr>,
      Some 2)"
  by (simp add: check_availability_internal_ib_def check_availability_ib_def
      create_appointment_ib_def backend_with_def busy_event_def booking_def same_day_parse_def
      clock_minutes_def digit_of_def events_list_def in_window_def events_insert_def)

section \<open>Alternative slots: results\<close>

lemma reordered_2pm:
  "reordered (index_of ''2:00 PM'' time_slots) time_slots =
    [''2:00 PM'', ''2:30 PM'', ''1:30 PM'', ''3:00 PM'', ''1:00 PM'', ''3:30 PM'', ''12:30 PM'',
     ''4:00 PM'', ''12:00 PM'', ''4:30 PM'', ''11:30 AM'', ''5:00 PM'', ''11:00 AM'',
     ''10:30 AM'', ''10:00 AM'', ''9:30 AM'', ''9:00 AM'', ''8:30 AM'', ''8:00 AM'']"
  by (simp add: reordered_def time_slots_def upt_rec [of _ "numeral _"] upt_rec [of 0])

lemma minutes_2pm:
  "map clock_minutes
    [''2:00 PM'', ''2:30 PM'', ''1:30 PM'', ''3:00 PM'', ''1:00 PM'', ''3:30 PM'', ''12:30 PM'',
     ''4:00 PM'', ''12:00 PM'', ''4:30 PM'', ''11:30 AM'', ''5:00 PM'', ''11:00 AM'',
     ''10:30 AM'', ''10:00 AM'', ''9:30 AM'', ''9:00 AM'', ''8:30 AM'', ''8:00 AM'']
   = map Some [840, 870, 810, 900, 780, 930, 750, 960, 720, 990, 690, 1020, 660, 630, 600, 570,
       540, 510, 480]"
  by (simp add: clock_minutes_def digit_of_def)

lemma sorted_2pm:
  "sorted_wrt (offered_before ''2:00 PM'')
    [''2:00 PM'', ''2:30 PM'', ''1:30 PM'', ''3:00 PM'', ''1:00 PM'', ''3:30 PM'', ''12:30 PM'',
     ''4:00 PM'', ''12:00 PM'', ''4:30 PM'', ''11:30 AM'', ''5:00 PM'', ''11:00 AM'',
     ''10:30 AM'', ''10:00 AM'', ''9:30 AM'', ''9:00 AM'', ''8:30 AM'', ''8:00 AM'']"
proof -
  have c: "clock_minutes ''2:00 PM'' = Some 840"
    by (simp add: clock_minutes_def digit_of_def)
  have "sorted_wrt (nearer_or_later (Some 840))
          (map Some [840, 870, 810, 900, 780, 930, 750, 960, 720, 990, 690, 1020, 660, 630, 600,
             570, 540, 510, 480])"
    by (simp add: nearer_or_later_def gap_def)
  then show ?thesis
    unfolding offered_before_def [abs_def] c minutes_2pm [symmetric] sorted_wrt_map .
qed

lemma check_returns_when_free:
  "\<not> lock_held mgr \<Longrightarrow>
   \<exists>r. check_availability P mgr d s None = Returns (slot_available P mgr d s, r)"
  by (auto simp: check_availability_def slot_available_def split: option.splits prod.splits)

lemma collect_available_eq:
  assumes "\<not> lock_held mgr"
  shows "collect_available P mgr d count acc slots =
         Returns (acc @ take (nat (count - int (length acc))) (filter (slot_available P mgr d) slots))"
proof (induction slots arbitrary: acc)
  case Nil
  show ?case by simp
next
  case (Cons s slots)
  obtain r where r: "check_availability P mgr d s None = Returns (slot_available P mgr d s, r)"
    using check_returns_when_free [OF assms] by blast
  show ?case
  proof (cases "int (length acc) \<ge> count")
    case True
    then show ?thesis by simp
  next
    case False
    then have pos: "nat (count - int (length acc)) = Suc (nat (count - int (length acc) - 1))"
      by simp
    show ?thesis
    proof (cases "slot_available P mgr d s")
      case True
      with False r Cons.IH [of "acc @ [s]"] pos show ?thesis
        by (simp add: algebra_simps)
    next
      case no: False
      with False r Cons.IH [of acc] show ?thesis
        by simp
    qed
  qed
qed

lemma reordered_same_set:
  assumes "idx < length slots"
  shows "set (reordered idx slots) = set slots"
proof
  show "set (reordered idx slots) \<subseteq> set slots"
    using assms by (auto simp: reordered_def)
  show "set slots \<subseteq> set (reordered idx slots)"
  proof
    fix s assume "s \<in> set slots"
    then obtain j where j: "j < length slots" and s: "s = slots ! j"
      by (auto simp: in_set_conv_nth)
    show "s \<in> set (reordered idx slots)"
    proof (cases "idx \<le> j")
      case True
      then have "j - idx < length slots" and "idx + (j - idx) = j" using j by auto
      with j s show ?thesis
        unfolding reordered_def by (auto intro!: bexI [of _ "j - idx"])
    next
      case False
      then have "idx - j < length slots" and "idx - j \<le> idx" and "0 < idx - j"
        and "idx - (idx - j) = j" using assms by auto
      with j s show ?thesis
        unfolding reordered_def by (auto intro!: bexI [of _ "idx - j"])
    qed
  qed
qed

lemma index_of_less: "x \<in> set xs \<Longrightarrow> index_of x xs < length xs"
  by (induction xs) auto

lemma find_next_eq:
  assumes "\<not> lock_held mgr" and "service mgr = Some svc"
  shows "\<exists>order. set order = set time_slots \<and>
           find_next_available_slots P mgr d p n =
             Returns (take (nat n) (filter (slot_available P mgr d) order))"
proof -
  let ?order = "(case p of None \<Rightarrow> time_slots
                 | Some q \<Rightarrow> if q \<noteq> [] \<and> List.member time_slots q
                     then reordered (index_of q time_slots) time_slots else time_slots)"
  have "set ?order = set time_slots"
    by (auto simp: reordered_same_set index_of_less split: option.splits)
  moreover have "find_next_available_slots P mgr d p n =
             Returns (take (nat n) (filter (slot_available P mgr d) ?order))"
    using assms by (simp add: find_next_available_slots_def collect_available_eq)
  ultimately show ?thesis by blast
qed


lemma find_next_2pm:
  assumes "service mgr = Some svc" and "\<not> lock_held mgr"
  shows "find_next_available_slots P mgr d (Some ''2:00 PM'') 3 =
         Returns (take 3 (filter (slot_available P mgr d)
            (reordered (index_of ''2:00 PM'' time_slots) time_slots)))"
proof -
  have m: "List.member time_slots ''2:00 PM''"
    by (simp add: time_slots_def)
  show ?thesis
    using assms m by (simp add: find_next_available_slots_def collect_available_eq)
qed

lemma best_prefix:
  assumes "sorted_wrt R xs" and "s \<in> set xs" and "Q s" and "s \<notin> set (take n (filter Q xs))"
  shows "length (take n (filter Q xs)) = n \<and> (\<forall>r\<in>set (take n (filter Q xs)). R r s)"
proof -
  let ?ys = "filter Q xs"
  have srt: "sorted_wrt R (take n ?ys @ drop n ?ys)"
    using assms(1) by (simp add: sorted_wrt_filter)
  have "s \<in> set (take n ?ys @ drop n ?ys)"
    using assms(2,3) by simp
  then have d: "s \<in> set (drop n ?ys)"
    using assms(4) by (simp only: set_append) blast
  then have "n < length ?ys"
    by (cases "n < length ?ys") auto
  then have "length (take n ?ys) = n" by simp
  moreover have "\<forall>r\<in>set (take n ?ys). R r s"
    using srt d by (simp only: sorted_wrt_append) blast
  ultimately show ?thesis by blast
qed

text \<open>
  C9. With a calendar service configured and the lock free,
  \<open>find_next_available_slots(date, "2:00 PM", 3)\<close> returns at most three slots of the
  grid, each available, in the order "nearer to 2:00 PM first, later first at equal
  distance"; and an available slot of the grid is left out only when three slots were
  found that all come before it in that order.
\<close>

theorem find_alternatives_2pm:
  assumes "service mgr = Some svc" and "\<not> lock_held mgr"
  shows "\<exists>res. find_next_available_slots P mgr d (Some ''2:00 PM'') 3 = Returns res \<and>
           length res \<le> 3 \<and>
           sorted_wrt (offered_before ''2:00 PM'') res \<and>
           (\<forall>s\<in>set res. s \<in> set time_slots \<and> slot_available P mgr d s) \<and>
           (\<forall>s\<in>set time_slots. slot_available P mgr d s \<and> s \<notin> set res \<longrightarrow>
              length res = 3 \<and> (\<forall>r\<in>set res. offered_before ''2:00 PM'' r s))"
proof -
  let ?order = "reordered (index_of ''2:00 PM'' time_slots) time_slots"
  let ?res = "take 3 (filter (slot_available P mgr d) ?order)"
  have srt: "sorted_wrt (offered_before ''2:00 PM'') ?order"
    using sorted_2pm by (simp only: reordered_2pm)
  have same: "set ?order = set time_slots"
    by (simp only: reordered_2pm) (simp add: time_slots_def insert_commute)
  have 1: "find_next_available_slots P mgr d (Some ''2:00 PM'') 3 = Returns ?res"
    using assms by (rule find_next_2pm)
  have 2: "length ?res \<le> 3" by simp
  have 3: "sorted_wrt (offered_before ''2:00 PM'') ?res"
    using srt by (intro sorted_wrt_take sorted_wrt_filter)
  have 4: "\<forall>s\<in>set ?res. s \<in> set time_slots \<and> slot_available P mgr d s"
  proof
    fix s assume "s \<in> set ?res"
    then have "s \<in> set (filter (slot_available P mgr d) ?order)"
      by (rule in_set_takeD)
    then show "s \<in> set time_slots \<and> slot_available P mgr d s"
      using same by simp
  qed
  have 5: "\<forall>s\<in>set time_slots. slot_available P mgr d s \<and> s \<notin> set ?res \<longrightarrow>
              length ?res = 3 \<and> (\<forall>r\<in>set ?res. offered_before ''2:00 PM'' r s)"
  proof (intro ballI impI)
    fix s assume a: "s \<in> set time_slots" and b: "slot_available P mgr d s \<and> s \<notin> set ?res"
    from a same have "s \<in> set ?order" by simp
    with srt b show "length ?res = 3 \<and> (\<forall>r\<in>set ?res. offered_before ''2:00 PM'' r s)"
      using best_prefix [of "offered_before ''2:00 PM''" ?order s "slot_available P mgr d" 3]
      by blast
  qed
  from 1 2 3 4 5 show ?thesis by blast
qed

theorem find_alternatives_2pm_witness:
  "find_next_available_slots same_day_parse (manager_with [busy_event 1 840 900])
     ''Friday, June 06'' (Some ''2:00 PM'') 3 = Returns [''3:00 PM'', ''1:00 PM'', ''3:30 PM''] \<and>
   (\<exists>res. find_next_available_slots same_day_parse (manager_with [busy_event 1 840 900])
             ''Friday, June 06'' (Some ''2:00 PM'') 3 = Returns res \<and>
           sorted_wrt (offered_before ''2:00 PM'') res)"
proof -
  have m: "''2:00 PM'' \<in> set time_slots"
    by (simp add: time_slots_def)
  have e: "find_next_available_slots same_day_parse (manager_with [busy_event 1 840 900])
     ''Friday, June 06'' (Some ''2:00 PM'') 3 = Returns [''3:00 PM'', ''1:00 PM'', ''3:30 PM'']"
    unfolding find_next_available_slots_def
    by (simp add: m reordered_2pm manager_with_def
        check_availability_def check_locked_def same_day_parse_def clock_minutes_def digit_of_def
        events_list_def backend_with_def in_window_def busy_event_def has_overlap_def)
  have s: "service (manager_with [busy_event 1 840 900]) = Some (backend_with [busy_event 1 840 900])"
    and l: "\<not> lock_held (manager_with [busy_event 1 840 900])"
    by (simp_all add: manager_with_def)
  from find_alternatives_2pm [OF s l, of same_day_parse "''Friday, June 06''"] e
  show ?thesis by auto
qed

section \<open>Completing a booking: results\<close>

lemma scan_events_details:
  "scan_events a b ex evs = (False, details) \<Longrightarrow> \<exists>why. details = Some why"
  by (induction evs) (auto split: if_splits option.splits)

lemma check_false_details:
  "check_availability P mgr d t ex = Returns (False, details) \<Longrightarrow>
   \<not> lock_held mgr \<and> (\<exists>svc. service mgr = Some svc) \<and> (\<exists>why. details = Some why)"
  by (auto simp: check_availability_def check_locked_def system_error_def Let_def
      dest: scan_events_details split: option.splits if_splits sum.splits)

lemma add_appointment_waits: "snd (add_appointment store a) = Blocks"
  by (simp add: add_appointment_def save_appointments_def)

lemma store_and_confirm_waits: "snd (store_and_confirm store a ok pick emotion) = Blocks"
  using add_appointment_waits [of store a]
  by (cases "add_appointment store a") (simp add: store_and_confirm_def)

lemma not_available_is_not_already_booked:
  "\<not> contains (lower ''Calendar service not available'') ''already booked''"
  by (simp add: lower_def char_lower_def)

lemma after_create_without_service:
  assumes "service mgr = None"
  shows "snd (after_create P mgr store a (False, None, Some ''Calendar service not available'')
                pick emotion) = Blocks"
  using assms not_available_is_not_already_booked
  by (simp add: after_create_def find_next_available_slots_def store_and_confirm_waits)

lemma book_appointment_gives_no_reply:
  "snd (book_appointment P (Some mgr) store session d t now_iso pick) \<noteq> Returns reply"
proof (cases "service mgr")
  case None
  have "\<And>a s r. after_create P mgr store a
                     (False, None, Some ''Calendar service not available'') pick
                     (emotion_state session) = (s, r) \<Longrightarrow> r = Blocks"
    using after_create_without_service [OF None, of P store _ pick "emotion_state session"]
    by (metis snd_conv)
  then show ?thesis
    by (auto simp: book_appointment_def Let_def create_without_service [OF None]
        split: option.splits prod.splits)
next
  case (Some svc)
  show ?thesis
  proof (cases "lock_held mgr")
    case True
    then show ?thesis
      by (simp add: book_appointment_def Let_def create_waits_for_held_lock [OF Some]
          split: option.splits)
  next
    case False
    then show ?thesis
      by (simp add: book_appointment_def Let_def create_waits_for_its_own_lock [OF Some]
          split: option.splits)
  qed
qed

lemma complete_booking_reply:
  assumes "complete_booking P (Some mgr) store session now_iso pick = ((manager', store'), Returns reply)"
  shows "manager' = Some mgr \<and> store' = store \<and>
      (\<exists>d' t' details'. cd_date (customer_data session) = Some d' \<and>
         cd_time (customer_data session) = Some t' \<and>
         check_availability P mgr d' t' None = Returns (False, details'))"
proof -
  obtain d' t' where dt: "cd_date (customer_data session) = Some d'"
      "cd_time (customer_data session) = Some t'"
    using assms by (auto simp: complete_booking_def split: option.splits)
  obtain ok details' where c: "check_availability P mgr d' t' None = Returns (ok, details')"
    using assms dt by (auto simp: complete_booking_def split: result.splits)
  have nb: "snd (book_appointment P (Some mgr) store session d' t' now_iso pick) \<noteq> Returns reply"
    by (rule book_appointment_gives_no_reply)
  have ok: "\<not> ok"
  proof
    assume ok
    with assms dt c have "book_appointment P (Some mgr) store session d' t' now_iso pick =
        ((manager', store'), Returns reply)"
      by (simp add: complete_booking_def)
    with nb show False by simp
  qed
  with assms dt c have "manager' = Some mgr \<and> store' = store"
    by (auto simp: complete_booking_def split: result.splits)
  with dt c ok show ?thesis by simp
qed

lemma final_check_reply_text:
  "final_check_reply d t (Some why) alts =
     (case alts of
                 [] \<Rightarrow>
                   ''I'm really sorry, but the '' @ t @ '' slot on '' @ d @ '' is '' @ why @
                   ''. Unfortunately, we don't have any other times available that day. '' @
                   ''Would you like to try a different day? Tomorrow perhaps?''
               | x # others \<Rightarrow>
                   ''Oh no! I'm so sorry, but someone just booked the '' @ t @ '' slot on '' @ d @
                   ''. That time is '' @ why @
                   ''. However, I have these times available on the same day: '' @
                   (case others of
                      [] \<Rightarrow> x
                    | [y] \<Rightarrow> x @ '', '' @ y
                    | y # z # rest \<Rightarrow> x @ '', '' @ y @ '', or '' @ z) @
                   ''. Which one would work better for you?'')"
proof (cases alts)
  case Nil
  then show ?thesis by (simp add: final_check_reply_def str_opt_def)
next
  case a: (Cons x xs)
  show ?thesis
  proof (cases xs)
    case Nil
    with a show ?thesis by (simp add: final_check_reply_def str_opt_def)
  next
    case b: (Cons y ys)
    show ?thesis
    proof (cases ys)
      case Nil
      with a b show ?thesis by (simp add: final_check_reply_def str_opt_def)
    next
      case (Cons z zs)
      with a b show ?thesis by (simp add: final_check_reply_def str_opt_def)
    qed
  qed
qed

lemma final_check_conflict:
  assumes "cd_date (customer_data session) = Some d" and "cd_time (customer_data session) = Some t"
    and "check_availability P mgr d t None = Returns (False, details)"
  shows "\<exists>why alts.
         details = Some why \<and>
         find_next_available_slots P mgr d (Some t) 3 = Returns alts \<and>
         length alts \<le> 3 \<and>
         (\<forall>s\<in>set alts. s \<in> set time_slots \<and> slot_available P mgr d s) \<and>
         (alts = []) = (\<forall>s\<in>set time_slots. \<not> slot_available P mgr d s) \<and>
         complete_booking P (Some mgr) store session now_iso pick =
           ((Some mgr, store),
            Returns
              (case alts of
                 [] \<Rightarrow>
                   ''I'm really sorry, but the '' @ t @ '' slot on '' @ d @ '' is '' @ why @
                   ''. Unfortunately, we don't have any other times available that day. '' @
                   ''Would you like to try a different day? Tomorrow perhaps?''
               | x # others \<Rightarrow>
                   ''Oh no! I'm so sorry, but someone just booked the '' @ t @ '' slot on '' @ d @
                   ''. That time is '' @ why @
                   ''. However, I have these times available on the same day: '' @
                   (case others of
                      [] \<Rightarrow> x
                    | [y] \<Rightarrow> x @ '', '' @ y
                    | y # z # rest \<Rightarrow> x @ '', '' @ y @ '', or '' @ z) @
                   ''. Which one would work better for you?''))"
proof -
  from check_false_details [OF assms(3)] obtain svc why where
    l: "\<not> lock_held mgr" and s: "service mgr = Some svc" and w: "details = Some why"
    by blast
  from find_next_eq [OF l s, of P d "Some t" 3] obtain order where
    o: "set order = set time_slots"
    and f: "find_next_available_slots P mgr d (Some t) 3 =
              Returns (take 3 (filter (slot_available P mgr d) order))"
    by auto
  let ?alts = "take 3 (filter (slot_available P mgr d) order)"
  have len: "length ?alts \<le> 3" by simp
  have each: "\<forall>s\<in>set ?alts. s \<in> set time_slots \<and> slot_available P mgr d s"
  proof
    fix s assume "s \<in> set ?alts"
    then have "s \<in> set (filter (slot_available P mgr d) order)" by (rule in_set_takeD)
    with o show "s \<in> set time_slots \<and> slot_available P mgr d s" by simp
  qed
  have none: "(?alts = []) = (\<forall>s\<in>set time_slots. \<not> slot_available P mgr d s)"
    using o by (simp add: filter_empty_conv)
  have reply: "final_check_reply d t (Some why) ?alts =
      (case ?alts of
                 [] \<Rightarrow>
                   ''I'm really sorry, but the '' @ t @ '' slot on '' @ d @ '' is '' @ why @
                   ''. Unfortunately, we don't have any other times available that day. '' @
                   ''Would you like to try a different day? Tomorrow perhaps?''
               | x # others \<Rightarrow>
                   ''Oh no! I'm so sorry, but someone just booked the '' @ t @ '' slot on '' @ d @
                   ''. That time is '' @ why @
                   ''. However, I have these times available on the same day: '' @
                   (case others of
                      [] \<Rightarrow> x
                    | [y] \<Rightarrow> x @ '', '' @ y
                    | y # z # rest \<Rightarrow> x @ '', '' @ y @ '', or '' @ z) @
                   ''. Which one would work better for you?'')"
    by (rule final_check_reply_text)
  have run: "complete_booking P (Some mgr) store session now_iso pick =
           ((Some mgr, store), Returns (final_check_reply d t (Some why) ?alts))"
    using assms w f by (simp add: complete_booking_def)
  from w f len each none run reply show ?thesis
    by (intro exI [of _ why] exI [of _ ?alts]) (simp only: simp_thms)
qed


text \<open>
  C10. If the final availability check of \<open>complete_booking\<close> reports the slot taken,
  then the check gave a reason, \<open>find_next_available_slots\<close> returns at most three
  alternatives (each an available slot of the grid, and none only when no slot of the
  grid is available), and \<open>complete_booking\<close> returns, with the calendar manager and the
  store as they were, the reply written out below: the apology without alternatives
  when there are none, and otherwise the apology that offers them as "x", "x, y" or
  "x, y, or z". Whenever \<open>complete_booking\<close>, given a calendar manager, returns a reply at
  all, it is in this case: the final check reported the slot taken, and the manager and
  the store are as they were. The other conflict, an insert that fails with "already
  booked", does not arise: \<open>create_appointment\<close> either never returns or answers
  "Calendar service not available", and that message does not hold "already booked".
\<close>

theorem conflict_outcomes_store_nothing:
  "(cd_date (customer_data session) = Some d \<and> cd_time (customer_data session) = Some t \<and>
    check_availability P mgr d t None = Returns (False, details) \<longrightarrow>
      (\<exists>why alts.
         details = Some why \<and>
         find_next_available_slots P mgr d (Some t) 3 = Returns alts \<and>
         length alts \<le> 3 \<and>
         (\<forall>s\<in>set alts. s \<in> set time_slots \<and> slot_available P mgr d s) \<and>
         (alts = []) = (\<forall>s\<in>set time_slots. \<not> slot_available P mgr d s) \<and>
         complete_booking P (Some mgr) store session now_iso pick =
           ((Some mgr, store),
            Returns
              (case alts of
                 [] \<Rightarrow>
                   ''I'm really sorry, but the '' @ t @ '' slot on '' @ d @ '' is '' @ why @
                   ''. Unfortunately, we don't have any other times available that day. '' @
                   ''Would you like to try a different day? Tomorrow perhaps?''
               | x # others \<Rightarrow>
                   ''Oh no! I'm so sorry, but someone just booked the '' @ t @ '' slot on '' @ d @
                   ''. That time is '' @ why @
                   ''. However, I have these times available on the same day: '' @
                   (case others of
                      [] \<Rightarrow> x
                    | [y] \<Rightarrow> x @ '', '' @ y
                    | y # z # rest \<Rightarrow> x @ '', '' @ y @ '', or '' @ z) @
                   ''. Which one would work better for you?'')))) \<and>
   (complete_booking P (Some mgr) store session now_iso pick = ((manager', store'), Returns reply) \<longrightarrow>
      manager' = Some mgr \<and> store' = store \<and>
      (\<exists>d' t' details'.
         cd_date (customer_data session) = Some d' \<and> cd_time (customer_data session) = Some t' \<and>
         check_availability P mgr d' t' None = Returns (False, details'))) \<and>
   (snd (create_appointment P m a) = Blocks \<or>
    snd (create_appointment P m a) =
      Returns (False, None, Some ''Calendar service not available'')) \<and>
   \<not> contains (lower ''Calendar service not available'') ''already booked''"
proof (intro conjI impI)
  assume "cd_date (customer_data session) = Some d \<and> cd_time (customer_data session) = Some t \<and>
    check_availability P mgr d t None = Returns (False, details)"
  then have "cd_date (customer_data session) = Some d" and "cd_time (customer_data session) = Some t"
    and "check_availability P mgr d t None = Returns (False, details)"
    by simp_all
  then show "\<exists>why alts.
         details = Some why \<and>
         find_next_available_slots P mgr d (Some t) 3 = Returns alts \<and>
         length alts \<le> 3 \<and>
         (\<forall>s\<in>set alts. s \<in> set time_slots \<and> slot_available P mgr d s) \<and>
         (alts = []) = (\<forall>s\<in>set time_slots. \<not> slot_available P mgr d s) \<and>
         complete_booking P (Some mgr) store session now_iso pick =
           ((Some mgr, store),
            Returns
              (case alts of
                 [] \<Rightarrow>
                   ''I'm really sorry, but the '' @ t @ '' slot on '' @ d @ '' is '' @ why @
                   ''. Unfortunately, we don't have any other times available that day. '' @
                   ''Would you like to try a different day? Tomorrow perhaps?''
               | x # others \<Rightarrow>
                   ''Oh no! I'm so sorry, but someone just booked the '' @ t @ '' slot on '' @ d @
                   ''. That time is '' @ why @
                   ''. However, I have these times available on the same day: '' @
                   (case others of
                      [] \<Rightarrow> x
                    | [y] \<Rightarrow> x @ '', '' @ y
                    | y # z # rest \<Rightarrow> x @ '', '' @ y @ '', or '' @ z) @
                   ''. Which one would work better for you?''))"
    by (rule final_check_conflict)
next
  assume "complete_booking P (Some mgr) store session now_iso pick =
            ((manager', store'), Returns reply)"
  then have r: "manager' = Some mgr \<and> store' = store \<and>
      (\<exists>d' t' details'.
         cd_date (customer_data session) = Some d' \<and> cd_time (customer_data session) = Some t' \<and>
         check_availability P mgr d' t' None = Returns (False, details'))"
    by (rule complete_booking_reply)
  from r show "manager' = Some mgr" by simp
  from r show "store' = store" by simp
  from r show "\<exists>d' t' details'.
         cd_date (customer_data session) = Some d' \<and> cd_time (customer_data session) = Some t' \<and>
         check_availability P mgr d' t' None = Returns (False, details')" by simp
next
  show "snd (create_appointment P m a) = Blocks \<or>
    snd (create_appointment P m a) =
      Returns (False, None, Some ''Calendar service not available'')"
    by (rule create_appointment_outcomes)
next
  show "\<not> contains (lower ''Calendar service not available'') ''already booked''"
    by (rule not_available_is_not_already_booked)
qed

lemma alternatives_for_10am:
  "find_next_available_slots same_day_parse (manager_with [busy_event 1 600 660])
     ''Friday, June 06'' (Some ''10:00 AM'') 3 = Returns [''11:00 AM'', ''9:00 AM'', ''11:30 AM'']"
proof -
  have m: "''10:00 AM'' \<in> set time_slots"
    by (simp add: time_slots_def)
  have r: "reordered (index_of ''10:00 AM'' time_slots) time_slots =
    [''10:00 AM'', ''10:30 AM'', ''9:30 AM'', ''11:00 AM'', ''9:00 AM'', ''11:30 AM'', ''8:30 AM'',
     ''12:00 PM'', ''8:00 AM'', ''12:30 PM'', ''1:00 PM'', ''1:30 PM'', ''2:00 PM'', ''2:30 PM'',
     ''3:00 PM'', ''3:30 PM'', ''4:00 PM'', ''4:30 PM'', ''5:00 PM'']"
    by (simp add: reordered_def time_slots_def upt_rec [of _ "numeral _"] upt_rec [of 0])
  show ?thesis
    unfolding find_next_available_slots_def
    by (simp add: m r manager_with_def
        check_availability_def check_locked_def same_day_parse_def clock_minutes_def digit_of_def
        events_list_def backend_with_def in_window_def busy_event_def has_overlap_def)
qed

lemma final_check_at_10am:
  "check_availability same_day_parse (manager_with [busy_event 1 600 660])
     ''Friday, June 06'' ''10:00 AM'' None
   = Returns (False, Some ''already booked from 10:00 AM to 11:00 AM'')"
  by (simp add: manager_with_def check_availability_def check_locked_def same_day_parse_def
      clock_minutes_def digit_of_def events_list_def backend_with_def in_window_def
      busy_event_def has_overlap_def strftime_IMp_def two_digits_def Let_def)

lemma check_during_outage:
  "check_availability P \<lparr>service = Some outage, appointment_duration = 60, lock_held = False\<rparr>
     d s None
   = Returns (False, Some ''unable to verify availability due to system error'')"
  by (simp add: check_availability_def check_locked_def events_list_def system_error_def
      outage_def split: sum.splits)

theorem conflict_outcomes_store_nothing_witness:
  "complete_booking same_day_parse (Some (manager_with [busy_event 1 600 660])) empty_store
     (caller (Some ''Friday, June 06'') (Some ''10:00 AM'')) ''2026-06-01T09:00:00'' 0
   = ((Some (manager_with [busy_event 1 600 660]), empty_store),
      Returns (''Oh no! I'm so sorry, but someone just booked the 10:00 AM slot on '' @
               ''Friday, June 06. That time is already booked from 10:00 AM to 11:00 AM. '' @
               ''However, I have these times available on the same day: '' @
               ''11:00 AM, 9:00 AM, or 11:30 AM. Which one would work better for you?'')) \<and>
   complete_booking same_day_parse
     (Some \<lparr>service = Some outage, appointment_duration = 60, lock_held = False\<rparr>) empty_store
     (caller (Some ''Friday, June 06'') (Some ''10:00 AM'')) ''2026-06-01T09:00:00'' 0
   = ((Some \<lparr>service = Some outage, appointment_duration = 60, lock_held = False\<rparr>, empty_store),
      Returns (''I'm really sorry, but the 10:00 AM slot on Friday, June 06 is unable to '' @
               ''verify availability due to system error. Unfortunately, we don't have any '' @
               ''other times available that day. Would you like to try a different day? '' @
               ''Tomorrow perhaps?'')) \<and>
   (\<exists>d' t' details'.
      cd_date (customer_data (caller (Some ''Friday, June 06'') (Some ''10:00 AM''))) = Some d' \<and>
      cd_time (customer_data (caller (Some ''Friday, June 06'') (Some ''10:00 AM''))) = Some t' \<and>
      check_availability same_day_parse (manager_with [busy_event 1 600 660]) d' t' None =
        Returns (False, details'))"
proof -
  let ?session = "caller (Some ''Friday, June 06'') (Some ''10:00 AM'')"
  let ?down = "\<lparr>service = Some outage, appointment_duration = 60, lock_held = False\<rparr>"
  have f: "cd_date (customer_data ?session) = Some ''Friday, June 06'' \<and>
           cd_time (customer_data ?session) = Some ''10:00 AM''"
    by (simp add: caller_def)
  have p1: "cd_date (customer_data ?session) = Some ''Friday, June 06'' \<and>
            cd_time (customer_data ?session) = Some ''10:00 AM'' \<and>
            check_availability same_day_parse (manager_with [busy_event 1 600 660])
              ''Friday, June 06'' ''10:00 AM'' None =
              Returns (False, Some ''already booked from 10:00 AM to 11:00 AM'')"
    by (rule conjI [OF conjunct1 [OF f] conjI [OF conjunct2 [OF f] final_check_at_10am]])
  have p2: "cd_date (customer_data ?session) = Some ''Friday, June 06'' \<and>
            cd_time (customer_data ?session) = Some ''10:00 AM'' \<and>
            check_availability same_day_parse ?down ''Friday, June 06'' ''10:00 AM'' None =
              Returns (False, Some ''unable to verify availability due to system error'')"
    by (rule conjI [OF conjunct1 [OF f] conjI [OF conjunct2 [OF f] check_during_outage]])
  have none: "\<forall>s\<in>set time_slots. \<not> slot_available same_day_parse ?down ''Friday, June 06'' s"
    by (simp add: slot_available_def check_during_outage)
  from conflict_outcomes_store_nothing
         [where store = empty_store and now_iso = "''2026-06-01T09:00:00''" and pick = 0,
          THEN conjunct1, THEN mp, OF p1]
  obtain why alts where
    w: "Some ''already booked from 10:00 AM to 11:00 AM'' = Some why"
    and a: "find_next_available_slots same_day_parse (manager_with [busy_event 1 600 660])
              ''Friday, June 06'' (Some ''10:00 AM'') 3 = Returns alts"
    and c: "complete_booking same_day_parse (Some (manager_with [busy_event 1 600 660]))
              empty_store ?session ''2026-06-01T09:00:00'' 0 =
            ((Some (manager_with [busy_event 1 600 660]), empty_store),
             Returns
              (case alts of
                 [] \<Rightarrow>
                   ''I'm really sorry, but the '' @ ''10:00 AM'' @ '' slot on '' @
                   ''Friday, June 06'' @ '' is '' @ why @
                   ''. Unfortunately, we don't have any other times available that day. '' @
                   ''Would you like to try a different day? Tomorrow perhaps?''
               | x # others \<Rightarrow>
                   ''Oh no! I'm so sorry, but someone just booked the '' @ ''10:00 AM'' @
                   '' slot on '' @ ''Friday, June 06'' @
                   ''. That time is '' @ why @
                   ''. However, I have these times available on the same day: '' @
                   (case others of
                      [] \<Rightarrow> x
                    | [y] \<Rightarrow> x @ '', '' @ y
                    | y # z # rest \<Rightarrow> x @ '', '' @ y @ '', or '' @ z) @
                   ''. Which one would work better for you?''))"
    by (elim exE conjE)
  have w': "why = ''already booked from 10:00 AM to 11:00 AM''"
    using w by simp
  have a': "alts = [''11:00 AM'', ''9:00 AM'', ''11:30 AM'']"
    using a unfolding alternatives_for_10am by simp
  have one: "complete_booking same_day_parse (Some (manager_with [busy_event 1 600 660]))
      empty_store ?session ''2026-06-01T09:00:00'' 0
   = ((Some (manager_with [busy_event 1 600 660]), empty_store),
      Returns (''Oh no! I'm so sorry, but someone just booked the 10:00 AM slot on '' @
               ''Friday, June 06. That time is already booked from 10:00 AM to 11:00 AM. '' @
               ''However, I have these times available on the same day: '' @
               ''11:00 AM, 9:00 AM, or 11:30 AM. Which one would work better for you?''))"
    unfolding c w' a' by simp
  from conflict_outcomes_store_nothing
         [where store = empty_store and now_iso = "''2026-06-01T09:00:00''" and pick = 0,
          THEN conjunct1, THEN mp, OF p2]
  obtain why2 alts2 where
    w2: "Some ''unable to verify availability due to system error'' = Some why2"
    and a2: "(alts2 = []) =
             (\<forall>s\<in>set time_slots. \<not> slot_available same_day_parse ?down ''Friday, June 06'' s)"
    and c2: "complete_booking same_day_parse (Some ?down) empty_store ?session
               ''2026-06-01T09:00:00'' 0 =
            ((Some ?down, empty_store),
             Returns
              (case alts2 of
                 [] \<Rightarrow>
                   ''I'm really sorry, but the '' @ ''10:00 AM'' @ '' slot on '' @
                   ''Friday, June 06'' @ '' is '' @ why2 @
                   ''. Unfortunately, we don't have any other times available that day. '' @
                   ''Would you like to try a different day? Tomorrow perhaps?''
               | x # others \<Rightarrow>
                   ''Oh no! I'm so sorry, but someone just booked the '' @ ''10:00 AM'' @
                   '' slot on '' @ ''Friday, June 06'' @
                   ''. That time is '' @ why2 @
                   ''. However, I have these times available on the same day: '' @
                   (case others of
                      [] \<Rightarrow> x
                    | [y] \<Rightarrow> x @ '', '' @ y
                    | y # z # rest \<Rightarrow> x @ '', '' @ y @ '', or '' @ z) @
                   ''. Which one would work better for you?''))"
    by (elim exE conjE)
  have w2': "why2 = ''unable to verify availability due to system error''"
    using w2 by simp
  have a2': "alts2 = []"
    using a2 none by simp
  have two: "complete_booking same_day_parse (Some ?down) empty_store
      ?session ''2026-06-01T09:00:00'' 0
   = ((Some ?down, empty_store),
      Returns (''I'm really sorry, but the 10:00 AM slot on Friday, June 06 is unable to '' @
               ''verify availability due to system error. Unfortunately, we don't have any '' @
               ''other times available that day. Would you like to try a different day? '' @
               ''Tomorrow perhaps?''))"
    unfolding c2 w2' a2' by simp
  have three: "\<exists>d' t' details'.
      cd_date (customer_data ?session) = Some d' \<and> cd_time (customer_data ?session) = Some t' \<and>
      check_availability same_day_parse (manager_with [busy_event 1 600 660]) d' t' None =
        Returns (False, details')"
    by (rule conflict_outcomes_store_nothing
               [THEN conjunct2, THEN conjunct1, THEN mp, OF one, THEN conjunct2, THEN conjunct2])
  from one two three show ?thesis by (intro conjI)
qed

lemma find_next_returns:
  assumes "\<not> lock_held mgr"
  shows "\<exists>alts. find_next_available_slots P mgr d p n = Returns alts"
  using assms
  by (simp add: find_next_available_slots_def collect_available_eq split: option.splits)

lemma already_booked_reply_text:
  "already_booked_reply t (Some msg) alts =
     (case alts of
        [] \<Rightarrow>
          ''I'm so sorry, but that time slot just got booked by someone else. '' @
          ''Would you like to try a different day?''
      | x # others \<Rightarrow>
          ''Oh, I apologize! Someone just booked that '' @ t @
          '' slot while we were talking. The system shows it's '' @ msg @
          ''. But don't worry, I have '' @
          (case others of [] \<Rightarrow> x | y # rest \<Rightarrow> x @ '', '' @ y) @
          '' still available. Which would you prefer?'')"
proof (cases alts)
  case Nil
  then show ?thesis by (simp add: already_booked_reply_def)
next
  case a: (Cons x xs)
  show ?thesis
  proof (cases xs)
    case Nil
    with a show ?thesis by (simp add: already_booked_reply_def str_opt_def)
  next
    case (Cons y ys)
    with a show ?thesis by (simp add: already_booked_reply_def str_opt_def)
  qed
qed

text \<open>
  The branch of \<open>complete_booking\<close> for an insert that failed with "already booked" is
  reached by no run, as shown above. Taken by itself, with the lock free, it answers as
  follows and stores nothing.
\<close>

lemma after_create_already_booked:
  assumes "contains (lower msg) ''already booked''" and "\<not> (success \<and> event_id \<noteq> None)"
    and "\<not> lock_held mgr"
  shows "\<exists>alts. find_next_available_slots P mgr (apt_date a) (Some (apt_time a)) 3 = Returns alts \<and>
           after_create P mgr store a (success, event_id, Some msg) pick emotion =
             (store,
              Returns
                (case alts of
                   [] \<Rightarrow>
                     ''I'm so sorry, but that time slot just got booked by someone else. '' @
                     ''Would you like to try a different day?''
                 | x # others \<Rightarrow>
                     ''Oh, I apologize! Someone just booked that '' @ apt_time a @
                     '' slot while we were talking. The system shows it's '' @ msg @
                     ''. But don't worry, I have '' @
                     (case others of [] \<Rightarrow> x | y # rest \<Rightarrow> x @ '', '' @ y) @
                     '' still available. Which would you prefer?''))"
proof -
  from find_next_returns [OF assms(3)] obtain alts where
    f: "find_next_available_slots P mgr (apt_date a) (Some (apt_time a)) 3 = Returns alts"
    by blast
  have "after_create P mgr store a (success, event_id, Some msg) pick emotion =
          (store, Returns (already_booked_reply (apt_time a) (Some msg) alts))"
    using assms(1,2) f by (auto simp: after_create_def)
  with f show ?thesis
    unfolding already_booked_reply_text by blast
qed

section \<open>Sessions and extraction: results\<close>

text \<open>
  C8, as the code has it. With the session lock free, a "call started" event always
  stores a new session (state \<open>greeting\<close>, nothing collected but the caller's number)
  under its call id, whether or not a session is stored there already; the sessions of
  all other call ids stay as they are.
\<close>

theorem call_started_stores_fresh_session:
  assumes "\<not> session_lock_held rcp"
  shows "handle_incoming_call business_name rcp sid from_number now =
           (rcp\<lparr>call_sessions := (call_sessions rcp)
                   (sid \<mapsto> ((CallSession sid now)
                             \<lparr>customer_data := no_data\<lparr>cd_from_number := from_number\<rparr>\<rparr>))\<rparr>,
            Returns (''Thanks for calling '' @ business_name @
                     '', this is Sarah. How can I help you today?''))"
  using assms by (simp add: handle_incoming_call_def)

theorem call_started_stores_fresh_session_witness:
  "handle_incoming_call ''Bright Smile Dental''
     \<lparr>call_sessions = [''CA1'' \<mapsto> in_progress], session_lock_held = False\<rparr>
     ''CA2'' (Some ''+15550111'') 60
   = (\<lparr>call_sessions =
         [''CA1'' \<mapsto> in_progress,
          ''CA2'' \<mapsto> ((CallSession ''CA2'' 60)
                        \<lparr>customer_data := no_data\<lparr>cd_from_number := Some ''+15550111''\<rparr>\<rparr>)],
       session_lock_held = False\<rparr>,
      Returns ''Thanks for calling Bright Smile Dental, this is Sarah. How can I help you today?'')"
  using call_started_stores_fresh_session
      [of "\<lparr>call_sessions = [''CA1'' \<mapsto> in_progress], session_lock_held = False\<rparr>"
          "''Bright Smile Dental''" "''CA2''" "Some ''+15550111''" 60]
  by simp

text \<open>
  C8, as the claim states it, fails: a session that has collected a name and a service
  and is gathering the date is replaced by a new one when "call started" arrives again
  for its call id.
\<close>

theorem repeated_call_started_replaces_session:
  "call_sessions
     (fst (handle_incoming_call ''Bright Smile Dental''
             \<lparr>call_sessions = [''CA1'' \<mapsto> in_progress], session_lock_held = False\<rparr>
             ''CA1'' (Some ''+15550100'') 60)) ''CA1''
   = Some ((CallSession ''CA1'' 60)
            \<lparr>customer_data := no_data\<lparr>cd_from_number := Some ''+15550100''\<rparr>\<rparr>) \<and>
   in_progress \<noteq> (CallSession ''CA1'' 60)
                    \<lparr>customer_data := no_data\<lparr>cd_from_number := Some ''+15550100''\<rparr>\<rparr> \<and>
   state in_progress = ''gathering_date'' \<and>
   cd_name (customer_data in_progress) = Some ''Jane'' \<and>
   state ((CallSession ''CA1'' 60)
            \<lparr>customer_data := no_data\<lparr>cd_from_number := Some ''+15550100''\<rparr>\<rparr>) = ''greeting'' \<and>
   cd_name (customer_data ((CallSession ''CA1'' 60)
            \<lparr>customer_data := no_data\<lparr>cd_from_number := Some ''+15550100''\<rparr>\<rparr>)) = None"
  by (simp add: handle_incoming_call_def in_progress_def CallSession_def no_data_def)

text \<open>
  C7 (the code at the failing input). A caller with no details yet says
  "tomorrow 9:00" (no calendar manager, the AI model off; no name, time or phone pattern
  matches that text, so \<open>extract_time\<close> returns \<open>None\<close>). The first extraction fills the date and the phone and leaves the
  time unset; the second extraction of the same text, on the session as the first left
  it, fills the time with \<open>9:00 AM\<close>.
\<close>

theorem second_extraction_fills_time:
  "extract_booking_info quiet_engine same_day_parse None default_services new_caller
     ''tomorrow 9:00''
   = Returns (new_caller\<lparr>customer_data :=
                no_data\<lparr>cd_phone := Some ''+15550100'', cd_date := Some ''Thursday, November 05'',
                          cd_from_number := Some ''+15550100''\<rparr>\<rparr>) \<and>
   extract_booking_info quiet_engine same_day_parse None default_services
     (new_caller\<lparr>customer_data :=
        no_data\<lparr>cd_phone := Some ''+15550100'', cd_date := Some ''Thursday, November 05'',
                  cd_from_number := Some ''+15550100''\<rparr>\<rparr>)
     ''tomorrow 9:00''
   = Returns (new_caller\<lparr>customer_data :=
                no_data\<lparr>cd_phone := Some ''+15550100'', cd_date := Some ''Thursday, November 05'',
                          cd_time := Some ''9:00 AM'',
                          cd_from_number := Some ''+15550100''\<rparr>\<rparr>)"
  by code_simp

section \<open>Circuit breaker: further results\<close>

lemma call_ib_armed:
  "armed_ib cb \<Longrightarrow> call_ib cb now func w later = (cb', out, w') \<Longrightarrow> armed_ib cb'"
  by (auto simp: armed_ib_def call_ib_def attempt_ib_def on_success_ib_def on_failure_ib_def
      Let_def split: if_splits option.splits prod.splits sum.splits)

lemma calls_ib_armed:
  "armed_ib cb \<Longrightarrow> armed_ib (fst (calls_ib cb xs w))"
proof (induction xs arbitrary: cb w)
  case Nil
  then show ?case by simp
next
  case (Cons x xs)
  obtain now func later where x: "x = (now, func, later)" by (cases x) auto
  obtain cb' out w' where c: "call_ib cb now func w later = (cb', out, w')"
    by (cases "call_ib cb now func w later") auto
  from Cons.prems c have "armed_ib cb'" by (rule call_ib_armed)
  then have "armed_ib (fst (calls_ib cb' xs w'))" by (rule Cons.IH)
  with x c show ?case by simp
qed

text \<open>
  In infobridge.py, whatever calls a new breaker has been through, a failure of the
  protected function while the breaker is half-open opens it again.
\<close>

theorem half_open_failure_reopens:
  assumes "cb = fst (calls_ib (CircuitBreaker_ib ft rt st) xs w0)"
    and "state_ib cb = Half_Open" and "func w = (Inl e, w')"
  shows "\<exists>cb'. call_ib cb now func w later = (cb', Failed e, w') \<and> state_ib cb' = Opened"
proof -
  have "armed_ib (CircuitBreaker_ib ft rt st)"
    by (simp add: armed_ib_def CircuitBreaker_ib_def)
  then have "armed_ib cb"
    unfolding assms(1) by (rule calls_ib_armed)
  with assms(2) have "failure_threshold_ib cb \<le> failure_count_ib cb"
    by (simp add: armed_ib_def)
  with assms(2,3) show ?thesis
    by (simp add: call_ib_def attempt_ib_def on_failure_ib_def Let_def)
qed

theorem half_open_failure_reopens_witness:
  "state_ib (fst (calls_ib (CircuitBreaker_ib 2 60 2)
       [(1, failing, 1), (2, failing, 2), (100, succeeding, 100)] 0)) = Half_Open \<and>
   (\<exists>cb'. call_ib (fst (calls_ib (CircuitBreaker_ib 2 60 2)
              [(1, failing, 1), (2, failing, 2), (100, succeeding, 100)] 0))
            101 failing 3 101 = (cb', Failed ''timeout'', 4) \<and> state_ib cb' = Opened)"
proof -
  have h: "state_ib (fst (calls_ib (CircuitBreaker_ib 2 60 2)
       [(1, failing, 1), (2, failing, 2), (100, succeeding, 100)] 0)) = Half_Open"
    by (simp add: CircuitBreaker_ib_def call_ib_def attempt_ib_def on_success_ib_def
        on_failure_ib_def failing_def succeeding_def Let_def)
  have f: "failing 3 = (Inl ''timeout'', 4)"
    by (simp add: failing_def)
  from half_open_failure_reopens
         [where cb = "fst (calls_ib (CircuitBreaker_ib 2 60 2)
                [(1, failing, 1), (2, failing, 2), (100, succeeding, 100)] (0::nat))"
            and ft = 2 and rt = 60 and st = 2
            and xs = "[(1, failing, 1), (2, failing, 2), (100, succeeding, 100)]" and ?w0.0 = "0::nat"
            and func = failing and w = 3 and e = "''timeout''" and w' = 4
            and now = 101 and later = 101, OF refl h f] h
  show ?thesis
    by blast
qed

text \<open>
  In both programs, a call through a breaker that is open, not more than
  \<open>recovery_timeout\<close> seconds after the last failure, is rejected: the breaker and the
  world of the protected function are as they were.
\<close>

theorem open_breaker_rejects_without_calling:
  "(is_open cb \<and> last_failure_time cb = Some t \<and> now - t \<le> recovery_timeout cb \<longrightarrow>
      call cb now func w later = (cb, Rejected, w)) \<and>
   (state_ib cb_ib = Opened \<and> last_failure_time_ib cb_ib = Some t_ib \<and>
    now_ib - t_ib \<le> recovery_timeout_ib cb_ib \<longrightarrow>
      call_ib cb_ib now_ib func_ib w_ib later_ib = (cb_ib, Rejected, w_ib))"
  by (simp add: call_def call_ib_def)

theorem open_breaker_rejects_without_calling_witness:
  "call (fst (calls (CircuitBreaker 2 60) [(1, failing, 1), (2, failing, 2)] 0)) 62 succeeding 2 62
   = (fst (calls (CircuitBreaker 2 60) [(1, failing, 1), (2, failing, 2)] 0), Rejected, 2) \<and>
   call_ib (fst (calls_ib (CircuitBreaker_ib 2 60 2) [(1, failing, 1), (2, failing, 2)] 0))
     62 succeeding 2 62
   = (fst (calls_ib (CircuitBreaker_ib 2 60 2) [(1, failing, 1), (2, failing, 2)] 0), Rejected, 2)"
proof -
  have a: "fst (calls (CircuitBreaker 2 60) [(1, failing, 1), (2, failing, 2)] (0::nat)) =
      \<lparr>failure_threshold = 2, recovery_timeout = 60, failure_count = 2,
       last_failure_time = Some 2, is_open = True\<rparr>"
    by (simp add: CircuitBreaker_def call_def attempt_def failing_def Let_def)
  have b: "fst (calls_ib (CircuitBreaker_ib 2 60 2) [(1, failing, 1), (2, failing, 2)] (0::nat)) =
      \<lparr>failure_threshold_ib = 2, recovery_timeout_ib = 60, success_threshold_ib = 2,
       failure_count_ib = 2, success_count_ib = 0, last_failure_time_ib = Some 2,
       state_ib = Opened\<rparr>"
    by (simp add: CircuitBreaker_ib_def call_ib_def attempt_ib_def on_failure_ib_def
        failing_def Let_def)
  have "call \<lparr>failure_threshold = 2, recovery_timeout = 60, failure_count = 2,
               last_failure_time = Some 2, is_open = True\<rparr> 62 succeeding (2::nat) 62
         = (\<lparr>failure_threshold = 2, recovery_timeout = 60, failure_count = 2,
             last_failure_time = Some 2, is_open = True\<rparr>, Rejected, 2) \<and>
        call_ib \<lparr>failure_threshold_ib = 2, recovery_timeout_ib = 60, success_threshold_ib = 2,
                  failure_count_ib = 2, success_count_ib = 0, last_failure_time_ib = Some 2,
                  state_ib = Opened\<rparr> 62 succeeding (2::nat) 62
         = (\<lparr>failure_threshold_ib = 2, recovery_timeout_ib = 60, success_threshold_ib = 2,
             failure_count_ib = 2, success_count_ib = 0, last_failure_time_ib = Some 2,
             state_ib = Opened\<rparr>, Rejected, 2)"
    using open_breaker_rejects_without_calling
         [where cb = "\<lparr>failure_threshold = 2, recovery_timeout = 60, failure_count = 2,
               last_failure_time = Some 2, is_open = True\<rparr>"
            and t = 2 and now = 62 and func = succeeding and w = "2::nat" and later = 62
            and cb_ib = "\<lparr>failure_threshold_ib = 2, recovery_timeout_ib = 60,
                  success_threshold_ib = 2, failure_count_ib = 2, success_count_ib = 0,
                  last_failure_time_ib = Some 2, state_ib = Opened\<rparr>"
            and t_ib = 2 and now_ib = 62 and func_ib = succeeding and w_ib = "2::nat"
            and later_ib = 62]
    by simp
  then show ?thesis
    unfolding a b .
qed

text \<open>
  In app101.py, a success of the protected function through a breaker that is not open
  sets \<open>failure_count\<close> back to 0.
\<close>

theorem success_resets_count_in_app101:
  assumes "\<not> is_open cb" and "func w = (Inr v, w')"
  shows "call cb now func w later = (cb\<lparr>failure_count := 0\<rparr>, Returned v, w')"
  using assms by (simp add: call_def attempt_def)

theorem success_resets_count_in_app101_witness:
  "call (fst (calls (CircuitBreaker 5 60)
            [(1, failing, 1), (2, failing, 2), (3, failing, 3), (4, failing, 4)] 0))
     5 succeeding 4 5
   = (\<lparr>failure_threshold = 5, recovery_timeout = 60, failure_count = 0,
       last_failure_time = Some 4, is_open = False\<rparr>, Returned (), 5)"
proof -
  have a: "fst (calls (CircuitBreaker 5 60)
            [(1, failing, 1), (2, failing, 2), (3, failing, 3), (4, failing, 4)] (0::nat)) =
      \<lparr>failure_threshold = 5, recovery_timeout = 60, failure_count = 4,
       last_failure_time = Some 4, is_open = False\<rparr>"
    by (simp add: CircuitBreaker_def call_def attempt_def failing_def Let_def)
  have s: "succeeding 4 = (Inr (), 5)"
    by (simp add: succeeding_def)
  have "call \<lparr>failure_threshold = 5, recovery_timeout = 60, failure_count = 4,
       last_failure_time = Some 4, is_open = False\<rparr> 5 succeeding 4 5
     = (\<lparr>failure_threshold = 5, recovery_timeout = 60, failure_count = 0,
       last_failure_time = Some 4, is_open = False\<rparr>, Returned (), 5)"
    using success_resets_count_in_app101
         [where cb = "\<lparr>failure_threshold = 5, recovery_timeout = 60, failure_count = 4,
              last_failure_time = Some 4, is_open = False\<rparr>"
            and func = succeeding and w = 4 and v = "()" and w' = 5 and now = 5 and later = 5] s
    by simp
  then show ?thesis
    unfolding a .
qed

text \<open>
  In infobridge.py, the success that brings the count of half-open successes to
  \<open>success_threshold\<close> closes the breaker and sets \<open>failure_count\<close> back to 0.
\<close>

theorem half_open_successes_close:
  assumes "state_ib cb = Half_Open" and "func w = (Inr v, w')"
    and "success_threshold_ib cb \<le> success_count_ib cb + 1"
  shows "call_ib cb now func w later =
           (cb\<lparr>success_count_ib := success_count_ib cb + 1, state_ib := Closed,
                failure_count_ib := 0\<rparr>, Returned v, w')"
  using assms by (simp add: call_ib_def attempt_ib_def on_success_ib_def Let_def)

theorem half_open_successes_close_witness:
  "call_ib \<lparr>failure_threshold_ib = 2, recovery_timeout_ib = 60, success_threshold_ib = 2,
             failure_count_ib = 2, success_count_ib = 1, last_failure_time_ib = Some 2,
             state_ib = Half_Open\<rparr> 101 succeeding 3 101
   = (\<lparr>failure_threshold_ib = 2, recovery_timeout_ib = 60, success_threshold_ib = 2,
       failure_count_ib = 0, success_count_ib = 2, last_failure_time_ib = Some 2,
       state_ib = Closed\<rparr>, Returned (), 4)"
  using half_open_successes_close
         [where cb = "\<lparr>failure_threshold_ib = 2, recovery_timeout_ib = 60,
              success_threshold_ib = 2, failure_count_ib = 2, success_count_ib = 1,
              last_failure_time_ib = Some 2, state_ib = Half_Open\<rparr>"
            and func = succeeding and w = 3 and v = "()" and w' = 4 and now = 101
            and later = 101]
  by (simp add: succeeding_def)

section \<open>Extraction: further results\<close>

lemma check_and_set_time_keeps:
  assumes "check_and_set_time P cm cd t = Returns cd'"
  shows "cd_name cd' = cd_name cd \<and> cd_phone cd' = cd_phone cd \<and>
         cd_service cd' = cd_service cd \<and> cd_date cd' = cd_date cd \<and>
         cd_preferred_time cd' = cd_preferred_time cd \<and>
         cd_from_number cd' = cd_from_number cd"
  using assms
  by (auto simp: check_and_set_time_def split: option.splits result.splits if_splits prod.splits)

lemma time_in_name_branch_keeps:
  assumes "time_in_name_branch E P cm text cd = Returns cd'"
  shows "cd_name cd' = cd_name cd \<and> cd_phone cd' = cd_phone cd \<and>
         cd_service cd' = cd_service cd \<and> cd_date cd' = cd_date cd \<and>
         cd_preferred_time cd' = cd_preferred_time cd \<and>
         cd_from_number cd' = cd_from_number cd \<and>
         (filled (cd_time cd) \<longrightarrow> cd_time cd' = cd_time cd)"
  using assms check_and_set_time_keeps [of P cm cd _ cd']
  by (auto simp: time_in_name_branch_def and_then_def
      split: if_splits option.splits result.splits)

lemma name_branch_keeps:
  assumes "name_branch E P cm st text cd = Returns cd'"
  shows "cd_phone cd' = cd_phone cd \<and> cd_service cd' = cd_service cd \<and>
         cd_date cd' = cd_date cd \<and> cd_preferred_time cd' = cd_preferred_time cd \<and>
         cd_from_number cd' = cd_from_number cd \<and>
         (filled (cd_name cd) \<longrightarrow> cd_name cd' = cd_name cd) \<and>
         (filled (cd_time cd) \<longrightarrow> cd_time cd' = cd_time cd)"
proof (cases "filled (cd_name cd)")
  case True
  with assms show ?thesis by (simp add: name_branch_def)
next
  case False
  define cd1 where "cd1 = (case truthy (name_patterns E text) of
                      Some name \<Rightarrow> cd\<lparr>cd_name := Some name\<rparr> | None \<Rightarrow> cd)"
  have k1: "cd_phone cd1 = cd_phone cd \<and> cd_service cd1 = cd_service cd \<and>
         cd_date cd1 = cd_date cd \<and> cd_preferred_time cd1 = cd_preferred_time cd \<and>
         cd_from_number cd1 = cd_from_number cd \<and> cd_time cd1 = cd_time cd"
    by (simp add: cd1_def split: option.splits)
  have nb: "name_branch E P cm st text cd =
      and_then (time_in_name_branch E P cm text cd1)
        (\<lambda>cd2. Returns
           (if \<not> filled (cd_name cd2) \<and> st = ''gathering_name'' then
              (case truthy (spelled_name E text) of
                 Some name \<Rightarrow> cd2\<lparr>cd_name := Some name\<rparr>
               | None \<Rightarrow> cd2)
            else cd2))"
    using False unfolding name_branch_def cd1_def Let_def by simp
  obtain cd2 where
    mid: "time_in_name_branch E P cm text cd1 = Returns cd2"
    and last: "cd' = (if \<not> filled (cd_name cd2) \<and> st = ''gathering_name'' then
                    (case truthy (spelled_name E text) of
                       Some name \<Rightarrow> cd2\<lparr>cd_name := Some name\<rparr>
                     | None \<Rightarrow> cd2)
                  else cd2)"
    using assms unfolding nb and_then_def by (auto split: result.splits)
  have k2: "cd_phone cd2 = cd_phone cd1 \<and> cd_service cd2 = cd_service cd1 \<and>
         cd_date cd2 = cd_date cd1 \<and> cd_preferred_time cd2 = cd_preferred_time cd1 \<and>
         cd_from_number cd2 = cd_from_number cd1 \<and>
         (filled (cd_time cd1) \<longrightarrow> cd_time cd2 = cd_time cd1)"
    using time_in_name_branch_keeps [OF mid] by simp
  have k3: "cd_phone cd' = cd_phone cd2 \<and> cd_service cd' = cd_service cd2 \<and>
         cd_date cd' = cd_date cd2 \<and> cd_preferred_time cd' = cd_preferred_time cd2 \<and>
         cd_from_number cd' = cd_from_number cd2 \<and> cd_time cd' = cd_time cd2"
    by (simp add: last split: option.splits)
  from False k1 k2 k3 show ?thesis by simp
qed

lemma service_branch_keeps:
  "cd_name (service_branch services text cd) = cd_name cd \<and>
   cd_phone (service_branch services text cd) = cd_phone cd \<and>
   cd_date (service_branch services text cd) = cd_date cd \<and>
   cd_time (service_branch services text cd) = cd_time cd \<and>
   cd_preferred_time (service_branch services text cd) = cd_preferred_time cd \<and>
   cd_from_number (service_branch services text cd) = cd_from_number cd \<and>
   (filled (cd_service cd) \<longrightarrow> cd_service (service_branch services text cd) = cd_service cd)"
  by (simp add: service_branch_def split: option.splits)

lemma date_branch_keeps:
  assumes "date_branch E P cm text cd = Returns cd'"
  shows "cd_name cd' = cd_name cd \<and> cd_phone cd' = cd_phone cd \<and>
         cd_service cd' = cd_service cd \<and> cd_preferred_time cd' = cd_preferred_time cd \<and>
         cd_from_number cd' = cd_from_number cd \<and>
         (filled (cd_date cd) \<longrightarrow> cd_date cd' = cd_date cd \<and> cd_time cd' = cd_time cd) \<and>
         (filled (cd_preferred_time cd) \<or> cd_time cd' = cd_time cd)"
  using assms check_and_set_time_keeps [of P cm _ _ cd']
  by (auto simp: date_branch_def truthy_def split: if_splits option.splits)

lemma time_branch_keeps:
  assumes "time_branch E P cm text cd = Returns cd'"
  shows "cd_name cd' = cd_name cd \<and> cd_phone cd' = cd_phone cd \<and>
         cd_service cd' = cd_service cd \<and> cd_date cd' = cd_date cd \<and>
         cd_from_number cd' = cd_from_number cd \<and>
         (filled (cd_time cd) \<longrightarrow> cd_time cd' = cd_time cd)"
  using assms check_and_set_time_keeps [of P cm cd _ cd']
  by (auto simp: time_branch_def and_then_def split: if_splits option.splits result.splits)

lemma phone_branch_keeps:
  "cd_name (phone_branch E text cd) = cd_name cd \<and>
   cd_service (phone_branch E text cd) = cd_service cd \<and>
   cd_date (phone_branch E text cd) = cd_date cd \<and>
   cd_time (phone_branch E text cd) = cd_time cd \<and>
   (filled (cd_phone cd) \<longrightarrow> cd_phone (phone_branch E text cd) = cd_phone cd)"
  by (simp add: phone_branch_def split: option.splits)

text \<open>
  In app101.py, an extraction that returns leaves a filled name, phone, service and date
  as they were, and a filled time as well when the date is filled or no preferred time
  is waiting.
\<close>

theorem extraction_keeps_filled_fields:
  assumes "extract_booking_info E P cm services session text = Returns session'"
  shows "(filled (cd_name (customer_data session)) \<longrightarrow>
            cd_name (customer_data session') = cd_name (customer_data session)) \<and>
         (filled (cd_phone (customer_data session)) \<longrightarrow>
            cd_phone (customer_data session') = cd_phone (customer_data session)) \<and>
         (filled (cd_service (customer_data session)) \<longrightarrow>
            cd_service (customer_data session') = cd_service (customer_data session)) \<and>
         (filled (cd_date (customer_data session)) \<longrightarrow>
            cd_date (customer_data session') = cd_date (customer_data session)) \<and>
         (filled (cd_time (customer_data session)) \<and>
          (filled (cd_date (customer_data session)) \<or>
           filled (cd_preferred_time (customer_data session)) = False) \<longrightarrow>
            cd_time (customer_data session') = cd_time (customer_data session))"
proof -
  let ?cd = "customer_data session"
  from assms obtain cd1 cd2 cd3 where
    s1: "name_branch E P cm (state session) text ?cd = Returns cd1" and
    s2: "date_branch E P cm text (service_branch services text cd1) = Returns cd2" and
    s3: "time_branch E P cm text cd2 = Returns cd3" and
    s4: "customer_data session' = phone_branch E text cd3"
    by (auto simp: extract_booking_info_def and_then_def split: result.splits)
  have n: "cd_phone cd1 = cd_phone ?cd" "cd_service cd1 = cd_service ?cd"
    "cd_date cd1 = cd_date ?cd" "cd_preferred_time cd1 = cd_preferred_time ?cd"
    "filled (cd_name ?cd) \<Longrightarrow> cd_name cd1 = cd_name ?cd"
    "filled (cd_time ?cd) \<Longrightarrow> cd_time cd1 = cd_time ?cd"
    using name_branch_keeps [OF s1] by simp_all
  let ?cds = "service_branch services text cd1"
  have s: "cd_name ?cds = cd_name cd1" "cd_phone ?cds = cd_phone cd1"
    "cd_date ?cds = cd_date cd1" "cd_time ?cds = cd_time cd1"
    "cd_preferred_time ?cds = cd_preferred_time cd1"
    "filled (cd_service cd1) \<Longrightarrow> cd_service ?cds = cd_service cd1"
    using service_branch_keeps [of services "text" cd1] by simp_all
  have d: "cd_name cd2 = cd_name ?cds" "cd_phone cd2 = cd_phone ?cds"
    "cd_service cd2 = cd_service ?cds"
    "filled (cd_date ?cds) \<Longrightarrow> cd_date cd2 = cd_date ?cds"
    "filled (cd_date ?cds) \<Longrightarrow> cd_time cd2 = cd_time ?cds"
    "filled (cd_preferred_time ?cds) = False \<Longrightarrow> cd_time cd2 = cd_time ?cds"
    using date_branch_keeps [OF s2] by simp_all
  have t: "cd_name cd3 = cd_name cd2" "cd_phone cd3 = cd_phone cd2"
    "cd_service cd3 = cd_service cd2" "cd_date cd3 = cd_date cd2"
    "filled (cd_time cd2) \<Longrightarrow> cd_time cd3 = cd_time cd2"
    using time_branch_keeps [OF s3] by simp_all
  let ?cdp = "phone_branch E text cd3"
  have p: "cd_name ?cdp = cd_name cd3" "cd_service ?cdp = cd_service cd3"
    "cd_date ?cdp = cd_date cd3" "cd_time ?cdp = cd_time cd3"
    "filled (cd_phone cd3) \<Longrightarrow> cd_phone ?cdp = cd_phone cd3"
    using phone_branch_keeps [of E "text" cd3] by simp_all
  have c1: "filled (cd_name ?cd) \<Longrightarrow> cd_name ?cdp = cd_name ?cd"
    by (simp add: n(5) s(1) d(1) t(1) p(1))
  have c2: "filled (cd_phone ?cd) \<Longrightarrow> cd_phone ?cdp = cd_phone ?cd"
    by (simp add: n(1) s(2) d(2) t(2) p(5))
  have c3: "filled (cd_service ?cd) \<Longrightarrow> cd_service ?cdp = cd_service ?cd"
    by (simp add: n(2) s(6) d(3) t(3) p(2))
  have c4: "filled (cd_date ?cd) \<Longrightarrow> cd_date ?cdp = cd_date ?cd"
    by (simp add: n(3) s(3) d(4) t(4) p(3))
  have c5: "cd_time ?cdp = cd_time ?cd"
    if a: "filled (cd_time ?cd)"
      and b: "filled (cd_date ?cd) \<or> filled (cd_preferred_time ?cd) = False"
  proof -
    have "cd_time cd2 = cd_time ?cds"
      using b by (auto simp: n(3,4) s(3,5) intro: d(5) d(6))
    with a show ?thesis
      by (simp add: n(6) s(4) t(5) p(4))
  qed
  from c1 c2 c3 c4 c5 show ?thesis
    unfolding s4 by blast
qed

theorem extraction_keeps_filled_fields_witness:
  "extract_booking_info eager_engine same_day_parse None default_services settled_caller
     ''this is bob, a consultation tomorrow at 3:00 pm, 555-987-6543'' = Returns settled_caller \<and>
   cd_name (customer_data settled_caller) = Some ''Jane'' \<and>
   cd_phone (customer_data settled_caller) = Some ''5550100'' \<and>
   cd_service (customer_data settled_caller) = Some ''Cleaning'' \<and>
   cd_date (customer_data settled_caller) = Some ''Friday, June 06'' \<and>
   cd_time (customer_data settled_caller) = Some ''10:00 AM''"
proof -
  have e: "extract_booking_info eager_engine same_day_parse None default_services settled_caller
     ''this is bob, a consultation tomorrow at 3:00 pm, 555-987-6543'' = Returns settled_caller"
    by (simp add: extract_booking_info_def name_branch_def service_branch_def date_branch_def
        time_branch_def phone_branch_def and_then_def filled_def settled_caller_def no_data_def
        CallSession_def)
  from extraction_keeps_filled_fields [OF e] e show ?thesis
    by (simp add: settled_caller_def no_data_def)
qed

lemma extract_time_on_match:
  "time_pattern_matches E (lower text) \<Longrightarrow> extract_time E text = Raises ''IndexError''"
  by (simp add: extract_time_def)

lemma time_in_name_branch_on_match:
  assumes "time_pattern_matches E (lower text)" and "\<not> filled (cd_time cd)"
  shows "time_in_name_branch E P cm text cd =
           (if filled (cd_date cd) then Raises ''IndexError'' else Returns cd)"
  using assms by (simp add: time_in_name_branch_def extract_time_on_match and_then_def)

lemma name_branch_on_match:
  assumes "time_pattern_matches E (lower text)" and "\<not> filled (cd_time cd)"
  shows "name_branch E P cm st text cd = Raises ''IndexError'' \<or>
         (\<exists>cd'. name_branch E P cm st text cd = Returns cd' \<and> cd_time cd' = cd_time cd \<and>
                cd_preferred_time cd' = cd_preferred_time cd)"
proof (cases "filled (cd_name cd)")
  case True
  then show ?thesis by (simp add: name_branch_def)
next
  case False
  define cd1 where "cd1 = (case truthy (name_patterns E text) of
                      Some name \<Rightarrow> cd\<lparr>cd_name := Some name\<rparr> | None \<Rightarrow> cd)"
  have k: "cd_time cd1 = cd_time cd \<and> cd_preferred_time cd1 = cd_preferred_time cd"
    by (simp add: cd1_def split: option.splits)
  then have n: "\<not> filled (cd_time cd1)" using assms(2) by simp
  have nb: "name_branch E P cm st text cd =
      and_then (time_in_name_branch E P cm text cd1)
        (\<lambda>cd2. Returns
           (if \<not> filled (cd_name cd2) \<and> st = ''gathering_name'' then
              (case truthy (spelled_name E text) of
                 Some name \<Rightarrow> cd2\<lparr>cd_name := Some name\<rparr>
               | None \<Rightarrow> cd2)
            else cd2))"
    using False unfolding name_branch_def cd1_def Let_def by simp
  show ?thesis
    unfolding nb time_in_name_branch_on_match [OF assms(1) n]
    using k by (simp add: and_then_def split: option.splits)
qed

lemma date_branch_without_preferred_time:
  assumes "\<not> filled (cd_preferred_time cd)"
  shows "\<exists>cd'. date_branch E P cm text cd = Returns cd' \<and> cd_time cd' = cd_time cd"
  using assms by (simp add: date_branch_def truthy_def split: option.splits)

lemma time_branch_on_match:
  assumes "time_pattern_matches E (lower text)" and "\<not> filled (cd_time cd)"
  shows "time_branch E P cm text cd = Raises ''IndexError''"
  using assms by (simp add: time_branch_def extract_time_on_match and_then_def)

lemma service_branch_time:
  "cd_time (service_branch services text cd) = cd_time cd \<and>
   cd_preferred_time (service_branch services text cd) = cd_preferred_time cd"
  by (simp add: service_branch_def split: option.splits)

text \<open>
  In app101.py, an utterance that one of the time patterns of \<open>extract_time\<close> matches
  ends the extraction in an \<open>IndexError\<close>, for every session that has no time and no
  preferred time waiting.
\<close>

theorem extraction_raises_on_time_pattern:
  assumes "time_pattern_matches E (lower said)"
    and "\<not> filled (cd_time (customer_data session))"
    and "\<not> filled (cd_preferred_time (customer_data session))"
  shows "extract_booking_info E P cm services session said = Raises ''IndexError''"
proof -
  let ?cd = "customer_data session"
  from name_branch_on_match [OF assms(1,2), of P cm "state session"]
  show ?thesis
  proof
    assume "name_branch E P cm (state session) said ?cd = Raises ''IndexError''"
    then show ?thesis by (simp add: extract_booking_info_def and_then_def)
  next
    assume "\<exists>cd'. name_branch E P cm (state session) said ?cd = Returns cd' \<and>
              cd_time cd' = cd_time ?cd \<and> cd_preferred_time cd' = cd_preferred_time ?cd"
    then obtain cd1 where s1: "name_branch E P cm (state session) said ?cd = Returns cd1"
      and k1: "cd_time cd1 = cd_time ?cd" "cd_preferred_time cd1 = cd_preferred_time ?cd"
      by blast
    let ?cds = "service_branch services said cd1"
    have ks: "\<not> filled (cd_time ?cds)" "\<not> filled (cd_preferred_time ?cds)"
      using assms(2,3) k1 by (simp_all add: service_branch_time)
    from date_branch_without_preferred_time [OF ks(2), of E P cm said]
    obtain cd2 where s2: "date_branch E P cm said ?cds = Returns cd2"
      and k2: "cd_time cd2 = cd_time ?cds"
      by blast
    have "\<not> filled (cd_time cd2)" using ks(1) k2 by simp
    then have s3: "time_branch E P cm said cd2 = Raises ''IndexError''"
      by (rule time_branch_on_match [OF assms(1)])
    show ?thesis
      by (simp add: extract_booking_info_def and_then_def s1 s2 s3)
  qed
qed

theorem extraction_raises_on_time_pattern_witness:
  "extract_booking_info eager_engine same_day_parse None default_services new_caller
     ''this is bob, a consultation tomorrow at 3:00 pm'' = Raises ''IndexError''"
  using extraction_raises_on_time_pattern
          [where E = eager_engine and session = new_caller
             and said = "''this is bob, a consultation tomorrow at 3:00 pm''"
             and P = same_day_parse and cm = None and services = default_services]
  by (simp add: eager_engine_def quiet_engine_def new_caller_def no_data_def CallSession_def
      filled_def)

text \<open>
  In infobridge.py, the phone number is assigned whenever the phone pattern matches: a
  session that already has a phone number gets the one in the utterance.
\<close>

theorem extraction_ib_overwrites_phone:
  "extract_booking_info_ib (quiet_engine_ib\<lparr>phone_pattern_ib := (\<lambda>text. Some ''5559876543'')\<rparr>)
     default_services_ib available_times_ib
     (no_data\<lparr>cd_name := Some ''Jane'', cd_phone := Some ''5550100''\<rparr>)
     ''you can also reach my husband at 555-987-6543''
   = no_data\<lparr>cd_name := Some ''Jane'', cd_phone := Some ''5559876543''\<rparr>"
  by code_simp

end
